theory Spec2Isabelle
  imports Complex_Main
begin

text \<open>
  The analytics core of the energy dashboard: the cost analyzer, the sustainability analyzer
  and the history buffer of the demand analyzer, function by function.

  A TypeScript interface is a record with the interface's field names, and an anonymous
  object type a record of its own; a string-literal union (severity, priority, category,
  trend) is a string.  A field whose plain name is taken carries a prime (\<open>id'\<close>, \<open>sum'\<close>,
  \<open>count'\<close>, and \<open>value'\<close> and \<open>timestamp'\<close> outside the readings); records share field names, so
  a field of an earlier record is written with the record's name, as in \<open>CostBreakdown.id'\<close>.
  Parameters and local variables keep the source's names, with a prime where the name is
  a field's.  A function that draws from the environment takes the world and returns the
  world it leaves; a function that can throw returns a sum, \<open>Inl\<close> the error.
\<close>

section \<open>JavaScript numbers\<close>

text \<open>
  The analyzers compute with JavaScript numbers.  A number is modelled as a real or one of
  the three special values of IEEE 754; the finite part is computed exactly (rounding and
  overflow are not modelled), the special values follow IEEE 754: a division by zero gives
  \<open>NaN\<close> (for \<open>0 / 0\<close>) or an infinity, never an exception, and \<open>NaN\<close> compares false with
  everything.  The sign of a zero is not tracked: a zero divisor counts as \<open>+0\<close>.

  The code computes in binary64, where a product or a quotient is rounded, a tiny result
  underflows and a huge one overflows to an infinity.  A property below is therefore stated
  on what rounding cannot change: the special values, the shape of a result, a comparison
  between values that the same run returns, and the equality of two values computed by the
  same operations in the same order; a finite constant is stated only at a concrete input
  where every operation is exact in binary64.
\<close>

datatype number = Fin real | Infinity | NegInfinity | NaN

instantiation number :: "{plus, uminus, minus, times, inverse, ord}"
begin

fun plus_number :: "number \<Rightarrow> number \<Rightarrow> number" where
  "Fin a + Fin b = Fin (a + b)"
| "NaN + _ = NaN"
| "_ + NaN = NaN"
| "Infinity + NegInfinity = NaN"
| "NegInfinity + Infinity = NaN"
| "Infinity + _ = Infinity"
| "_ + Infinity = Infinity"
| "NegInfinity + _ = NegInfinity"
| "_ + NegInfinity = NegInfinity"

fun uminus_number :: "number \<Rightarrow> number" where
  "- Fin a = Fin (- a)"
| "- Infinity = NegInfinity"
| "- NegInfinity = Infinity"
| "- NaN = NaN"

definition minus_number :: "number \<Rightarrow> number \<Rightarrow> number" where
  "a - b = a + (- b)" for a b :: number

fun times_number :: "number \<Rightarrow> number \<Rightarrow> number" where
  "Fin a * Fin b = Fin (a * b)"
| "NaN * _ = NaN"
| "_ * NaN = NaN"
| "Fin a * Infinity = (if a = 0 then NaN else if 0 < a then Infinity else NegInfinity)"
| "Fin a * NegInfinity = (if a = 0 then NaN else if 0 < a then NegInfinity else Infinity)"
| "Infinity * Fin b = (if b = 0 then NaN else if 0 < b then Infinity else NegInfinity)"
| "NegInfinity * Fin b = (if b = 0 then NaN else if 0 < b then NegInfinity else Infinity)"
| "Infinity * Infinity = Infinity"
| "NegInfinity * NegInfinity = Infinity"
| "Infinity * NegInfinity = NegInfinity"
| "NegInfinity * Infinity = NegInfinity"

fun inverse_number :: "number \<Rightarrow> number" where
  "inverse_number (Fin b) = (if b = 0 then Infinity else Fin (1 / b))"
| "inverse_number Infinity = Fin 0"
| "inverse_number NegInfinity = Fin 0"
| "inverse_number NaN = NaN"

fun divide_number :: "number \<Rightarrow> number \<Rightarrow> number" where
  "divide_number (Fin a) (Fin b) =
     (if b = 0 then (if a = 0 then NaN else if 0 < a then Infinity else NegInfinity)
      else Fin (a / b))"
| "divide_number (Fin a) Infinity = Fin 0"
| "divide_number (Fin a) NegInfinity = Fin 0"
| "divide_number Infinity (Fin b) = (if 0 \<le> b then Infinity else NegInfinity)"
| "divide_number NegInfinity (Fin b) = (if 0 \<le> b then NegInfinity else Infinity)"
| "divide_number _ _ = NaN"

fun less_number :: "number \<Rightarrow> number \<Rightarrow> bool" where
  "Fin a < Fin b \<longleftrightarrow> a < b"
| "NaN < _ \<longleftrightarrow> False"
| "_ < NaN \<longleftrightarrow> False"
| "_ < NegInfinity \<longleftrightarrow> False"
| "Infinity < _ \<longleftrightarrow> False"
| "NegInfinity < _ \<longleftrightarrow> True"
| "_ < Infinity \<longleftrightarrow> True"

fun less_eq_number :: "number \<Rightarrow> number \<Rightarrow> bool" where
  "Fin a \<le> Fin b \<longleftrightarrow> a \<le> b"
| "NaN \<le> _ \<longleftrightarrow> False"
| "_ \<le> NaN \<longleftrightarrow> False"
| "NegInfinity \<le> _ \<longleftrightarrow> True"
| "_ \<le> Infinity \<longleftrightarrow> True"
| "_ \<le> NegInfinity \<longleftrightarrow> False"
| "Infinity \<le> _ \<longleftrightarrow> False"

instance ..

end

text \<open>\<open>Math.max\<close> and \<open>Math.min\<close> of two arguments: \<open>NaN\<close> as soon as one argument is.\<close>

fun Math_max :: "number \<Rightarrow> number \<Rightarrow> number" where
  "Math_max NaN _ = NaN"
| "Math_max _ NaN = NaN"
| "Math_max a b = (if a < b then b else a)"

fun Math_min :: "number \<Rightarrow> number \<Rightarrow> number" where
  "Math_min NaN _ = NaN"
| "Math_min _ NaN = NaN"
| "Math_min a b = (if b < a then b else a)"

fun Math_abs :: "number \<Rightarrow> number" where
  "Math_abs (Fin a) = Fin \<bar>a\<bar>"
| "Math_abs Infinity = Infinity"
| "Math_abs NegInfinity = Infinity"
| "Math_abs NaN = NaN"

fun Math_sqrt :: "number \<Rightarrow> number" where
  "Math_sqrt (Fin a) = (if a < 0 then NaN else Fin (sqrt a))"
| "Math_sqrt Infinity = Infinity"
| "Math_sqrt NegInfinity = NaN"
| "Math_sqrt NaN = NaN"

text \<open>\<open>Math.pow\<close> is only ever called with the exponent 2.\<close>

primrec Math_pow :: "number \<Rightarrow> nat \<Rightarrow> number" where
  "Math_pow x 0 = Fin 1"
| "Math_pow x (Suc n) = x * Math_pow x n"

fun Math_round :: "number \<Rightarrow> number" where
  "Math_round (Fin a) = Fin (of_int \<lfloor>a + 1 / 2\<rfloor>)"
| "Math_round x = x"

text \<open>\<open>xs.reduce((sum, x) => sum + f(x), 0)\<close>\<close>

definition reduce_add :: "('a \<Rightarrow> number) \<Rightarrow> 'a list \<Rightarrow> number" where
  "reduce_add f xs = foldl (\<lambda>sum x. sum + f x) (Fin 0) xs"

text \<open>The length of an array, as a number.\<close>

definition len :: "'a list \<Rightarrow> number" where
  "len xs = Fin (of_nat (length xs))"

section \<open>Dates and readings\<close>

text \<open>
  A date is its time value in milliseconds since the epoch, or the invalid date that
  \<open>new Date(s)\<close> yields for a string \<open>s\<close> it cannot parse.  A reading's \<open>timestamp\<close> string
  is represented by the date it parses to.  The calendar getters are those of a host whose
  local time is UTC (the convention of the repository's tests, which take
  \<open>2024-03-01T10:00:00Z\<close> for 10am); on the invalid date they return \<open>NaN\<close>, here \<open>None\<close>: an
  hour, weekday or month is a number that is \<open>NaN\<close> or a small natural.
\<close>

datatype Date = InvalidDate | Time int

fun getTime :: "Date \<Rightarrow> number" where
  "getTime InvalidDate = NaN"
| "getTime (Time t) = Fin (of_int t)"

fun getHours :: "Date \<Rightarrow> nat option" where
  "getHours InvalidDate = None"
| "getHours (Time t) = Some (nat ((t div 3600000) mod 24))"

text \<open>Day 0 of the epoch, 1 January 1970, was a Thursday (weekday 4; Sunday is 0).\<close>

fun getDay :: "Date \<Rightarrow> nat option" where
  "getDay InvalidDate = None"
| "getDay (Time t) = Some (nat ((t div 86400000 + 4) mod 7))"

text \<open>
  The proleptic Gregorian calendar: the (year, month, day of the month) of a day number,
  months counted from 0, and the day number of the first of a month.
\<close>

definition civil_of_days :: "int \<Rightarrow> int \<times> int \<times> int" where
  "civil_of_days days =
     (let z = days + 719468;
          era = z div 146097;
          doe = z mod 146097;
          yoe = (doe - doe div 1460 + doe div 36524 - doe div 146096) div 365;
          doy = doe - (365 * yoe + yoe div 4 - yoe div 100);
          mp = (5 * doy + 2) div 153;
          d = doy - (153 * mp + 2) div 5 + 1;
          m = (if mp < 10 then mp + 2 else mp - 10)
      in (yoe + era * 400 + (if m \<le> 1 then 1 else 0), m, d))"

definition days_of_civil :: "int \<Rightarrow> int \<Rightarrow> int" where
  "days_of_civil y m =
     (let y1 = y - (if m \<le> 1 then 1 else 0);
          era = y1 div 400;
          yoe = y1 mod 400;
          doy = (153 * (if 1 < m then m - 2 else m + 10) + 2) div 5;
          doe = yoe * 365 + yoe div 4 - yoe div 100 + doy
      in era * 146097 + doe - 719468)"

fun getMonth :: "Date \<Rightarrow> nat option" where
  "getMonth InvalidDate = None"
| "getMonth (Time t) = Some (nat (fst (snd (civil_of_days (t div 86400000)))))"

text \<open>
  \<open>d.setMonth(d.getMonth() + k)\<close> on the time value \<open>t\<close>: the same day of the month and
  time of day, \<open>k\<close> months away; a day the target month does not have runs over into the
  next month.
\<close>

definition addMonths :: "int \<Rightarrow> int \<Rightarrow> int" where
  "addMonths t k =
     (case civil_of_days (t div 86400000) of
        (y, m, d) \<Rightarrow>
          (days_of_civil (y + (m + k) div 12) ((m + k) mod 12) + d - 1) * 86400000
            + t mod 86400000)"

text \<open>\<open>d.setHours(hour, 0, 0, 0)\<close>: the time value of the same day at \<open>hour\<close> o'clock.\<close>

definition setHours :: "int \<Rightarrow> nat \<Rightarrow> int" where
  "setHours t hour = (t div 86400000) * 86400000 + int hour * 3600000"

record EnergyData =
  timestamp :: Date
  "value" :: number

section \<open>The environment: random identifiers, the clock, random numbers\<close>

text \<open>
  \<open>crypto.randomUUID()\<close>, \<open>new Date()\<close> / \<open>Date.now()\<close> and \<open>Math.random()\<close> read the
  environment.  The world holds, for each of the three, the results of its future calls in
  order; a call takes the first and leaves the rest.
\<close>

record world =
  uuids :: "nat \<Rightarrow> string"
  clock :: "nat \<Rightarrow> int"
  randoms :: "nat \<Rightarrow> real"

definition randomUUID :: "world \<Rightarrow> string \<times> world" where
  "randomUUID w = (uuids w 0, w\<lparr>uuids := \<lambda>n. uuids w (Suc n)\<rparr>)"

definition Date_now :: "world \<Rightarrow> int \<times> world" where
  "Date_now w = (clock w 0, w\<lparr>clock := \<lambda>n. clock w (Suc n)\<rparr>)"

definition Math_random :: "world \<Rightarrow> real \<times> world" where
  "Math_random w = (randoms w 0, w\<lparr>randoms := \<lambda>n. randoms w (Suc n)\<rparr>)"

section \<open>The cost analyzer\<close>

definition PEAK_RATE :: number where "PEAK_RATE = Fin 0.15"
definition OFF_PEAK_RATE :: number where "OFF_PEAK_RATE = Fin 0.08"
definition DEMAND_CHARGE_RATE :: number where "DEMAND_CHARGE_RATE = Fin 10"
definition FIXED_CHARGE :: number where "FIXED_CHARGE = Fin 50"
definition TAX_RATE :: number where "TAX_RATE = Fin 0.08"

fun isPeakHour :: "nat option \<Rightarrow> bool" where
  "isPeakHour None = False"
| "isPeakHour (Some hour) = (9 \<le> hour \<and> hour \<le> 17)"

record CostBreakdown =
  id' :: string
  energy_data_id :: string
  peak_cost :: number
  off_peak_cost :: number
  demand_charges :: number
  fixed_charges :: number
  taxes :: number
  other_charges :: number
  created_at :: Date

record CostMetrics =
  averageCostPerKwh :: number
  peakCostPerKwh :: number
  offPeakCostPerKwh :: number
  demandCostPerKw :: number

text \<open>The body of the \<open>forEach\<close> of \<open>calculateBreakdown\<close>, on (peakCost, offPeakCost, peakDemand).\<close>

definition breakdown_step :: "number \<times> number \<times> number \<Rightarrow> EnergyData \<Rightarrow> number \<times> number \<times> number" where
  "breakdown_step acc reading =
     (case acc of (peakCost, offPeakCost, peakDemand) \<Rightarrow>
        let hour = getHours (timestamp reading) in
        if isPeakHour hour
        then (peakCost + value reading * PEAK_RATE, offPeakCost, Math_max peakDemand (value reading))
        else (peakCost, offPeakCost + value reading * OFF_PEAK_RATE, peakDemand))"

definition calculateBreakdown :: "world \<Rightarrow> EnergyData list \<Rightarrow> CostBreakdown \<times> world" where
  "calculateBreakdown w data =
     (case foldl breakdown_step (Fin 0, Fin 0, Fin 0) data of
        (peakCost, offPeakCost, peakDemand) \<Rightarrow>
          let demandCharges = peakDemand * DEMAND_CHARGE_RATE;
              subtotal = peakCost + offPeakCost + demandCharges + FIXED_CHARGE;
              taxes = subtotal * TAX_RATE;
              (uuid, w1) = randomUUID w;
              (now, w2) = Date_now w1
          in (\<lparr>id' = uuid,
               energy_data_id = '''',
               peak_cost = peakCost,
               off_peak_cost = offPeakCost,
               demand_charges = demandCharges,
               fixed_charges = FIXED_CHARGE,
               taxes = taxes,
               other_charges = Fin 0,
               created_at = Time now\<rparr>, w2))"

definition calculateMetrics :: "CostBreakdown \<Rightarrow> number \<Rightarrow> number \<Rightarrow> CostMetrics" where
  "calculateMetrics breakdown totalKwh peakKwh =
     \<lparr>averageCostPerKwh = (peak_cost breakdown + off_peak_cost breakdown) / totalKwh,
      peakCostPerKwh = peak_cost breakdown / peakKwh,
      offPeakCostPerKwh = off_peak_cost breakdown / (totalKwh - peakKwh),
      demandCostPerKw = demand_charges breakdown / (peakKwh / PEAK_RATE)\<rparr>"

record CostPeriod =
  totalCost :: number
  averageCost :: number
  peakCosts :: number
  offPeakCosts :: number

record CostComparison =
  currentPeriod :: CostPeriod
  previousPeriod :: CostPeriod
  percentageChange :: CostPeriod

definition calculateComparison ::
    "world \<Rightarrow> EnergyData list \<Rightarrow> EnergyData list \<Rightarrow> CostComparison \<times> world" where
  "calculateComparison w currentData previousData =
     (let (currentBreakdown, w1) = calculateBreakdown w currentData;
          (previousBreakdown, w2) = calculateBreakdown w1 previousData;
          currentTotal = peak_cost currentBreakdown + off_peak_cost currentBreakdown;
          previousTotal = peak_cost previousBreakdown + off_peak_cost previousBreakdown;
          currentAvg = currentTotal / len currentData;
          previousAvg = previousTotal / len previousData
      in (\<lparr>currentPeriod =
             \<lparr>totalCost = currentTotal,
              averageCost = currentAvg,
              peakCosts = peak_cost currentBreakdown,
              offPeakCosts = off_peak_cost currentBreakdown\<rparr>,
           previousPeriod =
             \<lparr>totalCost = previousTotal,
              averageCost = previousAvg,
              peakCosts = peak_cost previousBreakdown,
              offPeakCosts = off_peak_cost previousBreakdown\<rparr>,
           percentageChange =
             \<lparr>totalCost = ((currentTotal - previousTotal) / previousTotal) * Fin 100,
              averageCost = ((currentAvg - previousAvg) / previousAvg) * Fin 100,
              peakCosts =
                ((peak_cost currentBreakdown - peak_cost previousBreakdown)
                   / peak_cost previousBreakdown) * Fin 100,
              offPeakCosts =
                ((off_peak_cost currentBreakdown - off_peak_cost previousBreakdown)
                   / off_peak_cost previousBreakdown) * Fin 100\<rparr>\<rparr>, w2))"

fun determineSeasonality :: "Date \<Rightarrow> string" where
  "determineSeasonality date =
     (case getMonth date of
        None \<Rightarrow> ''Winter''
      | Some month \<Rightarrow>
          if 5 \<le> month \<and> month \<le> 8 then ''Summer''
          else if 9 \<le> month \<and> month \<le> 11 then ''Fall''
          else if 2 \<le> month \<and> month \<le> 4 then ''Spring''
          else ''Winter'')"

text \<open>\<open>x === n\<close>, \<open>x >= n\<close> and \<open>x <= n\<close> for an hour or weekday \<open>x\<close>: false on \<open>NaN\<close>.\<close>

fun eq :: "nat option \<Rightarrow> nat \<Rightarrow> bool" where
  "eq None n = False"
| "eq (Some m) n = (m = n)"

fun ge :: "nat option \<Rightarrow> nat \<Rightarrow> bool" where
  "ge None n = False"
| "ge (Some m) n = (n \<le> m)"

fun le :: "nat option \<Rightarrow> nat \<Rightarrow> bool" where
  "le None n = False"
| "le (Some m) n = (m \<le> n)"

definition determineRootCause :: "nat option \<Rightarrow> nat option \<Rightarrow> number \<Rightarrow> string" where
  "determineRootCause hour dayOfWeek deviation =
     (if isPeakHour hour \<and> Fin 2 < deviation then ''Significant peak hour usage spike''
      else if eq dayOfWeek 0 \<or> eq dayOfWeek 6 then ''Unusual weekend activity''
      else if ge hour 22 \<or> le hour 5 then ''Unexpected nighttime consumption''
      else ''Normal operational variation'')"

record AnomalyImpact =
  cost :: number
  efficiency :: number

text \<open>\<open>dayOfWeek\<close> is \<open>undefined\<close> (\<open>None\<close>) when the weekday is \<open>NaN\<close>.\<close>

record AnomalyContext =
  timeOfDay :: string
  dayOfWeek :: "string option"
  seasonality :: string

record CostAnomaly =
  date :: Date
  actualCost :: number
  expectedCost :: number
  deviation :: number
  severity :: string
  confidence :: number
  impact :: AnomalyImpact
  "context" :: AnomalyContext
  rootCause :: string

text \<open>A number in a template literal: its decimal digits, or \<open>NaN\<close>.\<close>

fun digits :: "nat \<Rightarrow> string" where
  "digits n =
     (if n < 10 then [char_of (48 + n)] else digits (n div 10) @ [char_of (48 + n mod 10)])"

fun toString :: "nat option \<Rightarrow> string" where
  "toString None = ''NaN''"
| "toString (Some n) = digits n"

text \<open>\<open>xs[i]\<close>: \<open>undefined\<close> (\<open>None\<close>) when \<open>i\<close> is \<open>NaN\<close> or out of range.\<close>

fun item :: "'a list \<Rightarrow> nat option \<Rightarrow> 'a option" where
  "item xs None = None"
| "item xs (Some i) = (if i < length xs then Some (xs ! i) else None)"

definition dayNames :: "string list" where
  "dayNames = [''Sunday'', ''Monday'', ''Tuesday'', ''Wednesday'', ''Thursday'', ''Friday'', ''Saturday'']"

text \<open>The per-reading cost records of \<open>detectAnomalies\<close>: (timestamp, cost).\<close>

definition reading_cost :: "EnergyData \<Rightarrow> Date \<times> number" where
  "reading_cost reading =
     (timestamp reading,
      value reading *
        (if isPeakHour (getHours (timestamp reading)) then PEAK_RATE else OFF_PEAK_RATE))"

definition anomaly_of :: "number \<Rightarrow> number \<Rightarrow> Date \<times> number \<Rightarrow> CostAnomaly" where
  "anomaly_of avgCost stdDev record =
     (let deviation = Math_abs (snd record - avgCost) / stdDev;
          severity = (if Fin 2 < deviation then ''high'' else if Fin 1 < deviation then ''medium'' else ''low'');
          timestamp = fst record;
          hour = getHours timestamp;
          dayOfWeek = getDay timestamp
      in \<lparr>date = fst record,
          actualCost = snd record,
          expectedCost = avgCost,
          deviation = deviation,
          severity = severity,
          confidence = Math_max (Fin 0.7) (Fin 1 - deviation / Fin 4),
          impact =
            \<lparr>cost = Math_abs (snd record - avgCost),
             efficiency = (if Fin 1 < deviation then Fin 0.8 else Fin 0.4)\<rparr>,
          context =
            \<lparr>timeOfDay = toString hour @ '':00'',
             dayOfWeek = item dayNames dayOfWeek,
             seasonality = determineSeasonality timestamp\<rparr>,
          rootCause = determineRootCause hour dayOfWeek deviation\<rparr>)"

definition detectAnomalies :: "EnergyData list \<Rightarrow> CostAnomaly list" where
  "detectAnomalies data =
     (let costs = map reading_cost data;
          avgCost = reduce_add snd costs / len costs;
          stdDev = Math_sqrt (reduce_add (\<lambda>record. Math_pow (snd record - avgCost) 2) costs / len costs)
      in map (anomaly_of avgCost stdDev) costs)"

subsection \<open>Exceptions, shared objects, loops\<close>

text \<open>Reading a property of \<open>undefined\<close> throws a \<open>TypeError\<close>.\<close>

datatype error = TypeError

text \<open>
  The accumulator objects \<open>{ sum: 0, count: 0 }\<close> live in a store; an array holds
  references to them.  \<open>new Array(n).fill(o)\<close> evaluates the object literal once and stores
  the same reference \<open>n\<close> times.
\<close>

record bucket =
  sum' :: number
  count' :: nat

type_synonym ref = nat

type_synonym store = "bucket list"

definition alloc :: "store \<Rightarrow> bucket \<Rightarrow> ref \<times> store" where
  "alloc h b = (length h, h @ [b])"

definition Array_fill :: "nat \<Rightarrow> ref \<Rightarrow> ref list" where
  "Array_fill n r = replicate n r"

text \<open>\<open>arr[i].sum += v; arr[i].count++\<close>\<close>

definition accumulate :: "ref list \<Rightarrow> nat option \<Rightarrow> number \<Rightarrow> store \<Rightarrow> error + store" where
  "accumulate arr i v h =
     (case item arr i of
        None \<Rightarrow> Inl TypeError
      | Some r \<Rightarrow> Inr (h[r := \<lparr>sum' = sum' (h ! r) + v, count' = Suc (count' (h ! r))\<rparr>]))"

text \<open>\<open>forEach\<close> with a body that may throw, on the state the body updates.\<close>

fun forEach :: "('s \<Rightarrow> 'a \<Rightarrow> error + 's) \<Rightarrow> 's \<Rightarrow> 'a list \<Rightarrow> error + 's" where
  "forEach f s [] = Inr s"
| "forEach f s (x # xs) = (case f s x of Inl e \<Rightarrow> Inl e | Inr s' \<Rightarrow> forEach f s' xs)"

text \<open>\<open>map\<close> with a callback that reads the environment.\<close>

fun mapW :: "('a \<Rightarrow> world \<Rightarrow> 'b \<times> world) \<Rightarrow> 'a list \<Rightarrow> world \<Rightarrow> 'b list \<times> world" where
  "mapW f [] w = ([], w)"
| "mapW f (x # xs) w =
     (case f x w of (y, w1) \<Rightarrow> case mapW f xs w1 of (ys, w2) \<Rightarrow> (y # ys, w2))"

text \<open>The elements of an array with their indices, for \<open>map((x, i) => ...)\<close>.\<close>

definition indexed :: "'a list \<Rightarrow> ('a \<times> nat) list" where
  "indexed xs = zip xs [0..<length xs]"

text \<open>\<open>b.count > 0 ? b.sum / b.count : 0\<close>\<close>

definition average :: "bucket \<Rightarrow> number" where
  "average b = (if 0 < count' b then sum' b / Fin (of_nat (count' b)) else Fin 0)"

subsection \<open>The hourly forecast\<close>

record ConfidenceInterval =
  lower :: number
  upper :: number

text \<open>\<open>date\<close> is the decimal string of a time value; the model keeps the time value.\<close>

record CostForecast =
  date :: int
  predictedCost :: number
  confidenceInterval :: ConfidenceInterval

definition forecast_step :: "ref list \<Rightarrow> store \<Rightarrow> EnergyData \<Rightarrow> error + store" where
  "forecast_step hourlyAverages h reading =
     (let hour = getHours (timestamp reading);
          cost = value reading * (if isPeakHour hour then PEAK_RATE else OFF_PEAK_RATE)
      in accumulate hourlyAverages hour cost h)"

definition forecast_entry :: "store \<Rightarrow> ref \<times> nat \<Rightarrow> world \<Rightarrow> CostForecast \<times> world" where
  "forecast_entry h slot w =
     (case slot of (avg, hour) \<Rightarrow>
        let baselineCost = average (h ! avg);
            variance = baselineCost * Fin 0.2;
            (now, w1) = Date_now w
        in (\<lparr>date = setHours now hour,
             predictedCost = baselineCost,
             confidenceInterval =
               \<lparr>lower = Math_max (Fin 0) (baselineCost - variance),
                upper = baselineCost + variance\<rparr>\<rparr>, w1))"

definition generateForecast :: "world \<Rightarrow> EnergyData list \<Rightarrow> error + CostForecast list \<times> world" where
  "generateForecast w data =
     (let (o1, h0) = alloc [] \<lparr>sum' = Fin 0, count' = 0\<rparr>;
          hourlyAverages = Array_fill 24 o1
      in case forEach (forecast_step hourlyAverages) h0 data of
           Inl e \<Rightarrow> Inl e
         | Inr h \<Rightarrow> Inr (mapW (forecast_entry h) (indexed hourlyAverages) w))"

subsection \<open>The time-of-use grid\<close>

record TimeOfUseCost =
  hour :: nat
  weekday :: nat
  cost :: number

definition tou_entry :: "EnergyData list \<Rightarrow> nat \<Rightarrow> nat \<Rightarrow> TimeOfUseCost" where
  "tou_entry data wd hr =
     (let relevantData =
            filter (\<lambda>reading. eq (getDay (timestamp reading)) wd \<and> eq (getHours (timestamp reading)) hr) data;
          avgUsage =
            reduce_add value relevantData / (if length relevantData = 0 then Fin 1 else len relevantData);
          cost = avgUsage * (if isPeakHour (Some hr) then PEAK_RATE else OFF_PEAK_RATE)
      in \<lparr>hour = hr, weekday = wd, cost = cost\<rparr>)"

text \<open>The two nested \<open>for\<close> loops, each iteration pushing one entry.\<close>

definition generateTimeOfUseCosts :: "EnergyData list \<Rightarrow> TimeOfUseCost list" where
  "generateTimeOfUseCosts data =
     foldl (\<lambda>timeOfUseCosts wd.
              foldl (\<lambda>timeOfUseCosts hr. timeOfUseCosts @ [tou_entry data wd hr])
                timeOfUseCosts [0..<24])
       [] [0..<7]"

subsection \<open>Saving opportunities\<close>

record Sensitivity =
  factor :: string
  impact :: number

record RiskProfile =
  level :: string
  factors :: "string list"

record OpportunityInsights =
  keyFactors :: "string list"
  sensitivityAnalysis :: "Sensitivity list"
  riskProfile :: RiskProfile

record CostSavingOpportunity =
  id' :: string
  description :: string
  potentialSavings :: number
  implementationCost :: number
  paybackPeriod :: number
  category :: string
  priority :: string
  confidence :: number
  implementationSteps :: "string list"
  roi :: number
  mlInsights :: OpportunityInsights

definition peakReductionOpportunity :: "string \<Rightarrow> CostBreakdown \<Rightarrow> CostSavingOpportunity" where
  "peakReductionOpportunity uuid breakdown =
     \<lparr>id' = uuid,
      description = ''Shift peak usage to off-peak hours'',
      potentialSavings = peak_cost breakdown * Fin 0.2,
      implementationCost = Fin 5000,
      paybackPeriod = Fin 12,
      category = ''peak-reduction'',
      priority = ''high'',
      confidence = Fin 0.85,
      implementationSteps =
        [''Identify peak usage equipment'',
         ''Create load shifting schedule'',
         ''Install automated controls'',
         ''Train staff on new procedures''],
      roi = (peak_cost breakdown * Fin 0.2 * Fin 12) / Fin 5000,
      mlInsights =
        \<lparr>keyFactors = [''peak demand'', ''operational schedule'', ''equipment efficiency''],
         sensitivityAnalysis =
           [\<lparr>factor = ''peak hour reduction'', impact = Fin 0.6\<rparr>,
            \<lparr>factor = ''equipment upgrades'', impact = Fin 0.4\<rparr>],
         riskProfile = \<lparr>level = ''low'', factors = [''proven technology'', ''minimal disruption'']\<rparr>\<rparr>\<rparr>"

definition rateOptimizationOpportunity :: "string \<Rightarrow> number \<Rightarrow> CostSavingOpportunity" where
  "rateOptimizationOpportunity uuid totalCost' =
     \<lparr>id' = uuid,
      description = ''Optimize rate structure'',
      potentialSavings = totalCost' * Fin 0.15,
      implementationCost = Fin 2000,
      paybackPeriod = Fin 6,
      category = ''rate-optimization'',
      priority = ''medium'',
      confidence = Fin 0.9,
      implementationSteps =
        [''Analyze current rate structure'',
         ''Compare available rate plans'',
         ''Calculate savings potential'',
         ''Submit rate change request''],
      roi = (totalCost' * Fin 0.15 * Fin 12) / Fin 2000,
      mlInsights =
        \<lparr>keyFactors = [''rate structure'', ''usage patterns'', ''peak demand''],
         sensitivityAnalysis =
           [\<lparr>factor = ''rate differential'', impact = Fin 0.7\<rparr>,
            \<lparr>factor = ''usage timing'', impact = Fin 0.3\<rparr>],
         riskProfile = \<lparr>level = ''low'', factors = [''no operational changes'', ''guaranteed savings'']\<rparr>\<rparr>\<rparr>"

definition demandResponseOpportunity :: "string \<Rightarrow> CostBreakdown \<Rightarrow> CostSavingOpportunity" where
  "demandResponseOpportunity uuid breakdown =
     \<lparr>id' = uuid,
      description = ''Implement demand response program'',
      potentialSavings = demand_charges breakdown * Fin 0.25,
      implementationCost = Fin 10000,
      paybackPeriod = Fin 18,
      category = ''demand-response'',
      priority = ''high'',
      confidence = Fin 0.8,
      implementationSteps =
        [''Evaluate demand response programs'',
         ''Install monitoring equipment'',
         ''Develop response strategies'',
         ''Train staff on procedures''],
      roi = (demand_charges breakdown * Fin 0.25 * Fin 12) / Fin 10000,
      mlInsights =
        \<lparr>keyFactors = [''peak demand'', ''response capability'', ''program incentives''],
         sensitivityAnalysis =
           [\<lparr>factor = ''demand reduction'', impact = Fin 0.5\<rparr>,
            \<lparr>factor = ''response time'', impact = Fin 0.5\<rparr>],
         riskProfile = \<lparr>level = ''medium'', factors = [''operational changes'', ''staff training needed'']\<rparr>\<rparr>\<rparr>"

text \<open>\<open>if (c) opportunities.push({ id: crypto.randomUUID(), ... })\<close>\<close>

definition push_if ::
    "bool \<Rightarrow> (string \<Rightarrow> 'a) \<Rightarrow> 'a list \<times> world \<Rightarrow> 'a list \<times> world" where
  "push_if c mk st =
     (case st of (xs, w) \<Rightarrow>
        if c then (case randomUUID w of (uuid, w1) \<Rightarrow> (xs @ [mk uuid], w1)) else (xs, w))"

definition generateSavingOpportunities ::
    "world \<Rightarrow> CostBreakdown \<Rightarrow> TimeOfUseCost list \<Rightarrow> CostSavingOpportunity list \<times> world" where
  "generateSavingOpportunities w breakdown timeOfUse =
     (let totalCost = peak_cost breakdown + off_peak_cost breakdown;
          st1 = push_if (off_peak_cost breakdown * Fin 1.5 < peak_cost breakdown)
                  (\<lambda>uuid. peakReductionOpportunity uuid breakdown) ([], w);
          avgPeakCost =
            reduce_add cost (filter (\<lambda>tou. isPeakHour (Some (hour tou))) timeOfUse) / Fin 9;
          st2 = push_if (PEAK_RATE * Fin 1.2 < avgPeakCost)
                  (\<lambda>uuid. rateOptimizationOpportunity uuid totalCost) st1;
          st3 = push_if (totalCost * Fin 0.3 < demand_charges breakdown)
                  (\<lambda>uuid. demandResponseOpportunity uuid breakdown) st2
      in st3)"

subsection \<open>Usage patterns\<close>

record DailyPattern =
  hour :: nat
  avgUsage :: number
  confidence :: number

record WeeklyPattern =
  day :: nat
  avgUsage :: number
  confidence :: number

record SeasonalPattern =
  month :: nat
  avgUsage :: number
  confidence :: number

record MLUsagePattern =
  daily :: "DailyPattern list"
  weekly :: "WeeklyPattern list"
  seasonal :: "SeasonalPattern list"

record CostDriver =
  factor :: string
  impact :: number
  confidence :: number

record PotentialPart =
  category :: string
  amount :: number
  confidence :: number

record OptimizationPotential =
  total :: number
  breakdown :: "PotentialPart list"

record MLInsights =
  usagePatterns :: MLUsagePattern
  costDrivers :: "CostDriver list"
  optimizationPotential :: OptimizationPotential

definition insights_step ::
    "ref list \<Rightarrow> ref list \<Rightarrow> ref list \<Rightarrow> store \<Rightarrow> EnergyData \<Rightarrow> error + store" where
  "insights_step hourlyPatterns weeklyPatterns monthlyPatterns h reading =
     (let d = timestamp reading in
      case accumulate hourlyPatterns (getHours d) (value reading) h of
        Inl e \<Rightarrow> Inl e
      | Inr h1 \<Rightarrow>
          (case accumulate weeklyPatterns (getDay d) (value reading) h1 of
             Inl e \<Rightarrow> Inl e
           | Inr h2 \<Rightarrow> accumulate monthlyPatterns (getMonth d) (value reading) h2))"

definition costDrivers_const :: "CostDriver list" where
  "costDrivers_const =
     [\<lparr>factor = ''Peak Demand'', impact = Fin 0.4, confidence = Fin 0.9\<rparr>,
      \<lparr>factor = ''Time of Use'', impact = Fin 0.3, confidence = Fin 0.85\<rparr>,
      \<lparr>factor = ''Weather'', impact = Fin 0.2, confidence = Fin 0.75\<rparr>,
      \<lparr>factor = ''Day Type'', impact = Fin 0.1, confidence = Fin 0.95\<rparr>]"

definition optimizationPotential_const :: OptimizationPotential where
  "optimizationPotential_const =
     \<lparr>total = Fin 0.25,
      breakdown =
        [\<lparr>category = ''Peak Reduction'', amount = Fin 0.15, confidence = Fin 0.85\<rparr>,
         \<lparr>category = ''Load Shifting'', amount = Fin 0.05, confidence = Fin 0.9\<rparr>,
         \<lparr>category = ''Efficiency'', amount = Fin 0.05, confidence = Fin 0.8\<rparr>]\<rparr>"

definition generateMLInsights :: "EnergyData list \<Rightarrow> error + MLInsights" where
  "generateMLInsights data =
     (let (o1, h1) = alloc [] \<lparr>sum' = Fin 0, count' = 0\<rparr>;
          hourlyPatterns = Array_fill 24 o1;
          (o2, h2) = alloc h1 \<lparr>sum' = Fin 0, count' = 0\<rparr>;
          weeklyPatterns = Array_fill 7 o2;
          (o3, h3) = alloc h2 \<lparr>sum' = Fin 0, count' = 0\<rparr>;
          monthlyPatterns = Array_fill 12 o3
      in case forEach (insights_step hourlyPatterns weeklyPatterns monthlyPatterns) h3 data of
           Inl e \<Rightarrow> Inl e
         | Inr h \<Rightarrow>
             Inr \<lparr>usagePatterns =
                    \<lparr>daily =
                       map (\<lambda>(pattern, i).
                              \<lparr>hour = i,
                               avgUsage = average (h ! pattern),
                               confidence = Math_min (Fin 1) (Fin (of_nat (count' (h ! pattern))) / Fin 30)\<rparr>)
                         (indexed hourlyPatterns),
                     weekly =
                       map (\<lambda>(pattern, i).
                              \<lparr>day = i,
                               avgUsage = average (h ! pattern),
                               confidence = Math_min (Fin 1) (Fin (of_nat (count' (h ! pattern))) / Fin 4)\<rparr>)
                         (indexed weeklyPatterns),
                     seasonal =
                       map (\<lambda>(pattern, i).
                              \<lparr>month = i,
                               avgUsage = average (h ! pattern),
                               confidence = Math_min (Fin 1) (Fin (of_nat (count' (h ! pattern))) / Fin 30)\<rparr>)
                         (indexed monthlyPatterns)\<rparr>,
                  costDrivers = costDrivers_const,
                  optimizationPotential = optimizationPotential_const\<rparr>)"

subsection \<open>The whole analysis\<close>

record CostAnalysis =
  breakdown :: CostBreakdown
  metrics :: CostMetrics
  comparison :: CostComparison
  forecast :: "CostForecast list"
  anomalies :: "CostAnomaly list"
  timeOfUse :: "TimeOfUseCost list"
  savingOpportunities :: "CostSavingOpportunity list"
  mlInsights :: MLInsights
  isLoading :: bool
  isError :: bool
  error :: "error option"

text \<open>A call without the optional \<open>previousData\<close> is a call with the empty array.\<close>

definition analyzeCosts ::
    "world \<Rightarrow> EnergyData list \<Rightarrow> EnergyData list \<Rightarrow> error + CostAnalysis \<times> world" where
  "analyzeCosts w currentData previousData =
     (let totalKwh = reduce_add value currentData;
          peakKwh =
            reduce_add value (filter (\<lambda>reading. isPeakHour (getHours (timestamp reading))) currentData);
          (breakdown, w1) = calculateBreakdown w currentData;
          metrics = calculateMetrics breakdown totalKwh peakKwh;
          (comparison, w2) =
            calculateComparison w1 currentData
              (if length previousData \<noteq> 0 then previousData else currentData);
          anomalies = detectAnomalies currentData
      in case generateForecast w2 currentData of
           Inl e \<Rightarrow> Inl e
         | Inr (forecast', w3) \<Rightarrow>
             let timeOfUse = generateTimeOfUseCosts currentData;
                 (savingOpportunities, w4) = generateSavingOpportunities w3 breakdown timeOfUse
             in case generateMLInsights currentData of
                  Inl e \<Rightarrow> Inl e
                | Inr mlInsights' \<Rightarrow>
                    Inr (\<lparr>breakdown = breakdown,
                          metrics = metrics,
                          comparison = comparison,
                          forecast = forecast',
                          anomalies = anomalies,
                          timeOfUse = timeOfUse,
                          savingOpportunities = savingOpportunities,
                          mlInsights = mlInsights',
                          isLoading = False,
                          isError = False,
                          error = None\<rparr>, w4))"

section \<open>The sustainability analyzer\<close>

definition BASELINE_EMISSIONS :: number where "BASELINE_EMISSIONS = Fin 0.5"
definition INDUSTRY_BENCHMARK :: number where "INDUSTRY_BENCHMARK = Fin 75"
definition SQUARE_FOOTAGE :: number where "SQUARE_FOOTAGE = Fin 10000"
definition EQUIPMENT_EFFICIENCY_THRESHOLD :: number where "EQUIPMENT_EFFICIENCY_THRESHOLD = Fin 0.85"
definition RENEWABLE_GENERATION_FACTORS_solar :: number where "RENEWABLE_GENERATION_FACTORS_solar = Fin 0.20"
definition RENEWABLE_GENERATION_FACTORS_wind :: number where "RENEWABLE_GENERATION_FACTORS_wind = Fin 0.35"

text \<open>A natural number (an index, a count) as a number.\<close>

definition num :: "nat \<Rightarrow> number" where
  "num n = Fin (of_nat n)"

subsection \<open>Carbon footprint\<close>

record CarbonSource =
  source :: string
  emissions :: number
  percentage :: number
  trend :: string

record EmissionForecast =
  timestamp' :: Date
  predictedEmissions :: number
  confidence :: number

record CarbonFootprint =
  totalEmissions :: number
  emissionsPerKwh :: number
  carbonIntensity :: number
  reductionFromBaseline :: number
  sources :: "CarbonSource list"
  forecast :: "EmissionForecast list"

text \<open>The callback of the emission forecast: hour \<open>i\<close> from now, one random draw.\<close>

definition emission_forecast :: "number \<Rightarrow> nat \<Rightarrow> world \<Rightarrow> EmissionForecast \<times> world" where
  "emission_forecast emissions' i w =
     (let (now, w1) = Date_now w;
          (r, w2) = Math_random w1
      in (\<lparr>timestamp' = Time (now + int i * 3600000),
           predictedEmissions = emissions' / Fin 24 * (Fin 1 + Fin r * Fin 0.2 - Fin 0.1),
           confidence = Fin 0.9 - num i * Fin 0.02\<rparr>, w2))"

definition calculateCarbonFootprint :: "world \<Rightarrow> EnergyData list \<Rightarrow> CarbonFootprint \<times> world" where
  "calculateCarbonFootprint w data =
     (let totalUsage = reduce_add value data;
          emissions' = totalUsage * Fin 0.4;
          sources =
            [\<lparr>source = ''Grid Power'', emissions = emissions' * Fin 0.6, percentage = Fin 60,
              trend = ''decreasing''\<rparr>,
             \<lparr>source = ''On-site Generation'', emissions = emissions' * Fin 0.3, percentage = Fin 30,
              trend = ''stable''\<rparr>,
             \<lparr>source = ''Backup Systems'', emissions = emissions' * Fin 0.1, percentage = Fin 10,
              trend = ''increasing''\<rparr>];
          (forecast, w1) = mapW (emission_forecast emissions') [0..<24] w
      in (\<lparr>totalEmissions = emissions',
           emissionsPerKwh = emissions' / totalUsage,
           carbonIntensity = (emissions' / totalUsage) * Fin 1000,
           reductionFromBaseline =
             ((BASELINE_EMISSIONS - emissions' / totalUsage) / BASELINE_EMISSIONS) * Fin 100,
           sources = sources,
           forecast = forecast\<rparr>, w1))"

subsection \<open>Renewable energy\<close>

record Generation =
  source :: string
  amount :: number
  efficiency :: number
  availability :: number

record Potential =
  solar :: number
  wind :: number
  storage :: number

record Savings =
  cost :: number
  carbon :: number

definition identifyPeakRenewableHours :: "EnergyData list \<Rightarrow> Date list" where
  "identifyPeakRenewableHours data =
     map (\<lambda>(reading, index). timestamp reading)
       (take 5 (filter (\<lambda>(reading, index). index mod 4 = 0) (indexed data)))"

record RenewableEnergy =
  percentage :: number
  solarContribution :: number
  windContribution :: number
  gridUsage :: number
  peakRenewableHours :: "Date list"
  generation :: "Generation list"
  potential :: Potential
  savings :: Savings

definition calculateRenewableMetrics :: "EnergyData list \<Rightarrow> RenewableEnergy" where
  "calculateRenewableMetrics data =
     (let totalUsage = reduce_add value data;
          solarContribution = totalUsage * Fin 0.15;
          windContribution = totalUsage * Fin 0.25;
          generation =
            [\<lparr>source = ''Solar'', amount = solarContribution,
              efficiency = RENEWABLE_GENERATION_FACTORS_solar, availability = Fin 0.98\<rparr>,
             \<lparr>source = ''Wind'', amount = windContribution,
              efficiency = RENEWABLE_GENERATION_FACTORS_wind, availability = Fin 0.95\<rparr>];
          potential =
            \<lparr>solar = solarContribution * Fin 1.5,
             wind = windContribution * Fin 1.3,
             storage = totalUsage * Fin 0.2\<rparr>;
          savings =
            \<lparr>cost = (solarContribution + windContribution) * Fin 0.12,
             carbon = (solarContribution + windContribution) * Fin 0.4\<rparr>
      in \<lparr>percentage = ((solarContribution + windContribution) / totalUsage) * Fin 100,
          solarContribution = solarContribution,
          windContribution = windContribution,
          gridUsage = totalUsage - (solarContribution + windContribution),
          peakRenewableHours = identifyPeakRenewableHours data,
          generation = generation,
          potential = potential,
          savings = savings\<rparr>)"

subsection \<open>Efficiency\<close>

definition calculateWasteEnergy :: "EnergyData list \<Rightarrow> number \<Rightarrow> number" where
  "calculateWasteEnergy data avgUsage' =
     foldl (\<lambda>waste reading.
              let expectedUsage = avgUsage' * Fin 1.1
              in waste + Math_max (Fin 0) (value reading - expectedUsage))
       (Fin 0) data"

record Maintenance =
  status :: string
  nextService :: Date
  efficiency :: number

record EquipmentScore =
  score :: number
  usage :: number
  potential :: number
  maintenance :: Maintenance

record OptimizationStep =
  action :: string
  impact :: number
  cost :: number

record Optimization =
  current :: number
  potential :: number
  steps :: "OptimizationStep list"

text \<open>\<open>equipmentScores\<close> is an object keyed by equipment name: its entries in order.\<close>

record EfficiencyMetrics =
  energyPerSquareFoot :: number
  peakEfficiency :: number
  offPeakEfficiency :: number
  equipmentScores :: "(string \<times> EquipmentScore) list"
  wasteEnergy :: number
  optimization :: Optimization

definition calculateEfficiencyMetrics :: "world \<Rightarrow> EnergyData list \<Rightarrow> EfficiencyMetrics \<times> world" where
  "calculateEfficiencyMetrics w data =
     (let totalUsage = reduce_add value data;
          avgUsage = totalUsage / len data;
          (now1, w1) = Date_now w;
          (now2, w2) = Date_now w1;
          (now3, w3) = Date_now w2;
          equipmentScores =
            [(''hvac'',
              \<lparr>score = Fin 82, usage = totalUsage * Fin 0.4, potential = totalUsage * Fin 0.35,
               maintenance =
                 \<lparr>status = ''good'', nextService = Time (now1 + 30 * 24 * 60 * 60 * 1000),
                  efficiency = Fin 0.88\<rparr>\<rparr>),
             (''lighting'',
              \<lparr>score = Fin 88, usage = totalUsage * Fin 0.2, potential = totalUsage * Fin 0.15,
               maintenance =
                 \<lparr>status = ''warning'', nextService = Time (now2 + 15 * 24 * 60 * 60 * 1000),
                  efficiency = Fin 0.92\<rparr>\<rparr>),
             (''equipment'',
              \<lparr>score = Fin 75, usage = totalUsage * Fin 0.4, potential = totalUsage * Fin 0.3,
               maintenance =
                 \<lparr>status = ''critical'', nextService = Time (now3 + 5 * 24 * 60 * 60 * 1000),
                  efficiency = Fin 0.78\<rparr>\<rparr>)];
          wasteEnergy = calculateWasteEnergy data avgUsage;
          optimization =
            \<lparr>current = Fin 0.82,
             potential = Fin 0.90,
             steps =
               [\<lparr>action = ''Optimize HVAC schedules'', impact = Fin 0.05, cost = Fin 5000\<rparr>,
                \<lparr>action = ''Upgrade lighting controls'', impact = Fin 0.03, cost = Fin 8000\<rparr>]\<rparr>
      in (\<lparr>energyPerSquareFoot = totalUsage / SQUARE_FOOTAGE,
           peakEfficiency = Fin 85,
           offPeakEfficiency = Fin 90,
           equipmentScores = equipmentScores,
           wasteEnergy = wasteEnergy,
           optimization = optimization\<rparr>, w3))"

subsection \<open>Patterns, anomalies and predictions\<close>

record SeasonalImpact =
  season :: string
  impact :: number
  confidence :: number

record DailyEfficiency =
  timeOfDay :: string
  efficiency :: number
  confidence :: number

record WeatherImpact =
  condition :: string
  impact :: number
  confidence :: number

record SustainabilityPatterns =
  seasonal :: "SeasonalImpact list"
  daily :: "DailyEfficiency list"
  weather :: "WeatherImpact list"

record UsageAnomaly =
  timestamp' :: Date
  metric :: string
  expected :: number
  actual :: number
  impact :: number
  confidence :: number

record Correlation =
  factor :: string
  correlation :: number
  significance :: number
  confidence :: number

record ShortTermPrediction =
  metric :: string
  value' :: number
  confidence :: number
  horizon :: string

record LongTermPrediction =
  metric :: string
  trend :: string
  confidence :: number
  factors :: "string list"

record SustainabilityPredictions =
  shortTerm :: "ShortTermPrediction list"
  longTerm :: "LongTermPrediction list"

record MLSustainabilityInsights =
  patterns :: SustainabilityPatterns
  anomalies :: "UsageAnomaly list"
  correlations :: "Correlation list"
  predictions :: SustainabilityPredictions

definition daily_efficiency :: "nat \<Rightarrow> world \<Rightarrow> DailyEfficiency \<times> world" where
  "daily_efficiency hr w =
     (let (r, w1) = Math_random w
      in (\<lparr>timeOfDay = digits hr @ '':00'',
           efficiency = Fin 0.8 + Fin r * Fin 0.2,
           confidence = Fin 0.9 - num (hr mod 12) * Fin 0.02\<rparr>, w1))"

text \<open>\<open>data.slice(-5)\<close>: the last five elements, or all of a shorter array.\<close>

definition slice_last :: "nat \<Rightarrow> 'a list \<Rightarrow> 'a list" where
  "slice_last n xs = drop (length xs - n) xs"

definition calculateMLInsights :: "world \<Rightarrow> EnergyData list \<Rightarrow> MLSustainabilityInsights \<times> world" where
  "calculateMLInsights w data =
     (let (daily, w1) = mapW daily_efficiency [0..<24] w
      in (\<lparr>patterns =
             \<lparr>seasonal =
                [\<lparr>season = ''Summer'', impact = Fin 0.3, confidence = Fin 0.85\<rparr>,
                 \<lparr>season = ''Winter'', impact = Fin 0.25, confidence = Fin 0.82\<rparr>,
                 \<lparr>season = ''Spring'', impact = Fin 0.2, confidence = Fin 0.88\<rparr>,
                 \<lparr>season = ''Fall'', impact = Fin 0.15, confidence = Fin 0.87\<rparr>],
              daily = daily,
              weather =
                [\<lparr>condition = ''Temperature'', impact = Fin 0.4, confidence = Fin 0.9\<rparr>,
                 \<lparr>condition = ''Humidity'', impact = Fin 0.2, confidence = Fin 0.85\<rparr>,
                 \<lparr>condition = ''Cloud Cover'', impact = Fin 0.15, confidence = Fin 0.8\<rparr>]\<rparr>,
           anomalies =
             map (\<lambda>reading.
                    \<lparr>timestamp' = timestamp reading,
                     metric = ''Energy Usage'',
                     expected = value reading * Fin 0.9,
                     actual = value reading,
                     impact = Fin 0.1,
                     confidence = Fin 0.85\<rparr>)
               (slice_last 5 data),
           correlations =
             [\<lparr>factor = ''Occupancy'', correlation = Fin 0.8, significance = Fin 0.95, confidence = Fin 0.9\<rparr>,
              \<lparr>factor = ''Temperature'', correlation = Fin 0.7, significance = Fin 0.9, confidence = Fin 0.85\<rparr>,
              \<lparr>factor = ''Time of Day'', correlation = Fin 0.6, significance = Fin 0.85, confidence = Fin 0.8\<rparr>],
           predictions =
             \<lparr>shortTerm =
                [\<lparr>ShortTermPrediction.metric = ''Energy Usage'', value' = Fin 150, confidence = Fin 0.9, horizon = ''1h''\<rparr>,
                 \<lparr>ShortTermPrediction.metric = ''Efficiency'', value' = Fin 0.85, confidence = Fin 0.85, horizon = ''4h''\<rparr>,
                 \<lparr>ShortTermPrediction.metric = ''Carbon Intensity'', value' = Fin 0.4, confidence = Fin 0.8, horizon = ''24h''\<rparr>],
              longTerm =
                [\<lparr>metric = ''Sustainability Score'', trend = ''improving'', confidence = Fin 0.75,
                  factors = [''Equipment Upgrades'', ''Renewable Integration'']\<rparr>,
                 \<lparr>metric = ''Carbon Emissions'', trend = ''decreasing'', confidence = Fin 0.8,
                  factors = [''Grid Decarbonization'', ''Efficiency Improvements'']\<rparr>]\<rparr>\<rparr>, w1))"

subsection \<open>Recommendations\<close>

record RecommendationImpact =
  metric :: string
  value' :: number
  unit :: string

record Risk =
  description :: string
  severity :: string
  mitigation :: string

record Implementation =
  steps :: "string list"
  timeline :: string
  requirements :: "string list"
  risks :: "Risk list"

record RecommendationSensitivity =
  factor :: string
  impact :: number

record RecommendationInsights =
  confidence :: number
  factors :: "string list"
  sensitivity :: "RecommendationSensitivity list"

record SustainabilityRecommendation =
  id' :: string
  category :: string
  title :: string
  description :: string
  impact :: RecommendationImpact
  priority :: string
  estimatedCost :: number
  paybackPeriod :: number
  implementation :: Implementation
  mlInsights :: RecommendationInsights

record ScoreComponents =
  carbonScore :: number
  renewableScore :: number
  efficiencyScore :: number
  wasteScore :: number

definition carbonRecommendation :: "string \<Rightarrow> SustainabilityRecommendation" where
  "carbonRecommendation uuid =
     \<lparr>id' = uuid,
      category = ''carbon'',
      title = ''Implement Carbon Reduction Measures'',
      description = ''Switch to energy-efficient equipment and optimize HVAC schedules'',
      impact = \<lparr>metric = ''CO2 Reduction'', value' = Fin 25, unit = ''tons/year''\<rparr>,
      priority = ''high'',
      estimatedCost = Fin 50000,
      paybackPeriod = Fin 24,
      implementation =
        \<lparr>steps =
           [''Audit current equipment'',
            ''Identify replacement options'',
            ''Schedule installations'',
            ''Monitor performance''],
         timeline = ''6 months'',
         requirements = [''Capital budget'', ''Technical expertise''],
         risks =
           [\<lparr>Risk.description = ''Equipment compatibility'', severity = ''medium'',
             mitigation = ''Conduct thorough assessment''\<rparr>]\<rparr>,
      mlInsights =
        \<lparr>confidence = Fin 0.85,
         factors = [''Equipment age'', ''Usage patterns''],
         sensitivity =
           [\<lparr>factor = ''Implementation speed'', impact = Fin 0.7\<rparr>,
            \<lparr>factor = ''Staff training'', impact = Fin 0.3\<rparr>]\<rparr>\<rparr>"

definition renewableRecommendation :: "string \<Rightarrow> SustainabilityRecommendation" where
  "renewableRecommendation uuid =
     \<lparr>id' = uuid,
      category = ''renewable'',
      title = ''Increase Renewable Energy Usage'',
      description = ''Install solar panels or purchase renewable energy credits'',
      impact = \<lparr>metric = ''Renewable Percentage'', value' = Fin 30, unit = ''%''\<rparr>,
      priority = ''medium'',
      estimatedCost = Fin 75000,
      paybackPeriod = Fin 36,
      implementation =
        \<lparr>steps =
           [''Site assessment'',
            ''System design'',
            ''Installation'',
            ''Grid integration''],
         timeline = ''4 months'',
         requirements = [''Roof space'', ''Structural assessment''],
         risks =
           [\<lparr>Risk.description = ''Weather variability'', severity = ''low'',
             mitigation = ''Include battery storage''\<rparr>]\<rparr>,
      mlInsights =
        \<lparr>confidence = Fin 0.9,
         factors = [''Solar exposure'', ''Energy demand''],
         sensitivity =
           [\<lparr>factor = ''Installation timing'', impact = Fin 0.4\<rparr>,
            \<lparr>factor = ''System size'', impact = Fin 0.6\<rparr>]\<rparr>\<rparr>"

definition generateRecommendations ::
    "world \<Rightarrow> ScoreComponents \<Rightarrow> SustainabilityRecommendation list \<times> world" where
  "generateRecommendations w scores =
     (let st1 = push_if (carbonScore scores < Fin 70) carbonRecommendation ([], w);
          st2 = push_if (renewableScore scores < Fin 50) renewableRecommendation st1
      in st2)"

subsection \<open>The sustainability score\<close>

definition calculateTrend :: "number \<Rightarrow> string" where
  "calculateTrend currentScore =
     (if INDUSTRY_BENCHMARK + Fin 5 < currentScore then ''improving''
      else if currentScore < INDUSTRY_BENCHMARK - Fin 5 then ''declining''
      else ''stable'')"

record HistoricalProgress =
  timestamp' :: Date
  score :: number
  majorChanges :: "string list"

record ScoreForecast =
  timestamp' :: Date
  predictedScore :: number
  confidence :: number

definition historical_progress :: "number \<Rightarrow> nat \<Rightarrow> world \<Rightarrow> HistoricalProgress \<times> world" where
  "historical_progress overall i w =
     (let (now, w1) = Date_now w;
          (r, w2) = Math_random w1
      in (\<lparr>HistoricalProgress.timestamp' = Time (addMonths now (- int i)),
           score = Math_max (Fin 50) (overall - num i * (Fin r * Fin 2 - Fin 1)),
           majorChanges = (if i mod 3 = 0 then [''Equipment Upgrade'', ''Solar Installation''] else [])\<rparr>,
          w2))"

definition score_forecast :: "number \<Rightarrow> nat \<Rightarrow> world \<Rightarrow> ScoreForecast \<times> world" where
  "score_forecast overall i w =
     (let (now, w1) = Date_now w;
          (r, w2) = Math_random w1
      in (\<lparr>timestamp' = Time (addMonths now (int i)),
           predictedScore = Math_min (Fin 100) (overall + num i * (Fin r * Fin 2)),
           confidence = Fin 0.9 - num i * Fin 0.05\<rparr>, w2))"

record SustainabilityScore =
  overall :: number
  components :: ScoreComponents
  industryComparison :: number
  trend :: string
  recommendations :: "SustainabilityRecommendation list"
  historicalProgress :: "HistoricalProgress list"
  forecast :: "ScoreForecast list"

definition calculateSustainabilityScore ::
    "world \<Rightarrow> CarbonFootprint \<Rightarrow> RenewableEnergy \<Rightarrow> EfficiencyMetrics \<Rightarrow> SustainabilityScore \<times> world" where
  "calculateSustainabilityScore w carbon' renewable efficiency' =
     (let carbonScore = Math_min (Fin 100) ((Fin 1 - emissionsPerKwh carbon' / BASELINE_EMISSIONS) * Fin 100);
          renewableScore = RenewableEnergy.percentage renewable;
          efficiencyScore = (peakEfficiency efficiency' + offPeakEfficiency efficiency') / Fin 2;
          wasteScore = Math_max (Fin 0) (Fin 100 - (wasteEnergy efficiency' / Fin 10));
          overall =
            Math_round ((carbonScore * Fin 0.3) + (renewableScore * Fin 0.3)
                        + (efficiencyScore * Fin 0.2) + (wasteScore * Fin 0.2));
          (historicalProgress, w1) = mapW (historical_progress overall) [0..<12] w;
          (forecast, w2) = mapW (score_forecast overall) [0..<12] w1;
          (recommendations, w3) =
            generateRecommendations w2
              \<lparr>carbonScore = carbonScore, renewableScore = renewableScore,
               efficiencyScore = efficiencyScore, wasteScore = wasteScore\<rparr>
      in (\<lparr>overall = overall,
           components =
             \<lparr>carbonScore = carbonScore, renewableScore = renewableScore,
              efficiencyScore = efficiencyScore, wasteScore = wasteScore\<rparr>,
           industryComparison = ((overall - INDUSTRY_BENCHMARK) / INDUSTRY_BENCHMARK) * Fin 100,
           trend = calculateTrend overall,
           recommendations = recommendations,
           historicalProgress = historicalProgress,
           forecast = forecast\<rparr>, w3))"

subsection \<open>The whole analysis\<close>

record SustainabilityMetrics =
  carbonFootprint :: CarbonFootprint
  renewableEnergy :: RenewableEnergy
  efficiency :: EfficiencyMetrics
  sustainabilityScore :: SustainabilityScore
  mlInsights :: MLSustainabilityInsights

definition analyzeSustainability :: "world \<Rightarrow> EnergyData list \<Rightarrow> SustainabilityMetrics \<times> world" where
  "analyzeSustainability w data =
     (let (carbonFootprint, w1) = calculateCarbonFootprint w data;
          renewableEnergy = calculateRenewableMetrics data;
          (efficiency, w2) = calculateEfficiencyMetrics w1 data;
          (sustainabilityScore, w3) =
            calculateSustainabilityScore w2 carbonFootprint renewableEnergy efficiency;
          (mlInsights, w4) = calculateMLInsights w3 data
      in (\<lparr>carbonFootprint = carbonFootprint,
           renewableEnergy = renewableEnergy,
           efficiency = efficiency,
           sustainabilityScore = sustainabilityScore,
           mlInsights = mlInsights\<rparr>, w4))"

section \<open>The demand analyzer's history buffer\<close>

text \<open>
  \<open>xs.sort(c)\<close> is the engine's.  Under Node.js and in Chrome it is V8's TimSort
  (\<open>third_party/v8/builtins/array-sort.tq\<close>), which sorts an array of fewer than 64 elements
  in one pass: \<open>CountAndMakeRun\<close> counts the run at the start of the array, ascending or
  strictly descending, and reverses a descending one; \<open>BinaryInsertionSort\<close> then places
  each element after the run into it, at the position a binary search finds.  The
  comparator's result is read as a number, and a \<open>NaN\<close> counts as 0.  An array of 64 or more
  elements is cut into several runs that are merged; that part of the engine is not
  modelled, and \<open>Array_sort\<close> has no result there (\<open>None\<close>).
\<close>

definition Compare :: "('a \<Rightarrow> 'a \<Rightarrow> number) \<Rightarrow> 'a \<Rightarrow> 'a \<Rightarrow> number" where
  "Compare c x y = (case c x y of NaN \<Rightarrow> Fin 0 | v \<Rightarrow> v)"

text \<open>
  The loop of \<open>CountAndMakeRun\<close>: the number of elements that continue the run after
  \<open>previousElement\<close>.  A descending run goes on while the order is below 0, an ascending one
  while it is not.
\<close>

fun run_length :: "('a \<Rightarrow> 'a \<Rightarrow> number) \<Rightarrow> bool \<Rightarrow> 'a \<Rightarrow> 'a list \<Rightarrow> nat" where
  "run_length c isDescending previousElement [] = 0"
| "run_length c isDescending previousElement (currentElement # rest) =
     (if isDescending = (Compare c currentElement previousElement < Fin 0)
      then Suc (run_length c isDescending currentElement rest)
      else 0)"

definition CountAndMakeRun :: "('a \<Rightarrow> 'a \<Rightarrow> number) \<Rightarrow> 'a list \<Rightarrow> 'a list \<times> nat" where
  "CountAndMakeRun c workArray =
     (case workArray of
        elementHigh # elementLow # rest \<Rightarrow>
          (let isDescending = Compare c elementLow elementHigh < Fin 0;
               runLength = 2 + run_length c isDescending elementLow rest
           in (if isDescending
               then rev (take runLength workArray) @ drop runLength workArray
               else workArray,
               runLength))
      | _ \<Rightarrow> (workArray, length workArray))"

text \<open>
  The binary search of \<open>BinaryInsertionSort\<close> for the place of \<open>pivot\<close> between \<open>left\<close> and
  \<open>right\<close>: \<open>while (left < right) { mid = left + ((right - left) >> 1); if (order < 0) right = mid; else left = mid + 1; }\<close>.
\<close>

function BinarySearch :: "('a \<Rightarrow> 'a \<Rightarrow> number) \<Rightarrow> 'a \<Rightarrow> 'a list \<Rightarrow> nat \<Rightarrow> nat \<Rightarrow> nat" where
  "BinarySearch c pivot workArray left right =
     (if left < right
      then (if Compare c pivot (workArray ! (left + (right - left) div 2)) < Fin 0
            then BinarySearch c pivot workArray left (left + (right - left) div 2)
            else BinarySearch c pivot workArray (Suc (left + (right - left) div 2)) right)
      else left)"
  by pat_completeness auto
termination
  by (relation "measure (\<lambda>(c, pivot, workArray, left, right). right - left)") auto

declare BinarySearch.simps [simp del]

text \<open>One round of \<open>BinaryInsertionSort\<close>: the element at \<open>start\<close> moves to its place before it.\<close>

definition insert_pivot :: "('a \<Rightarrow> 'a \<Rightarrow> number) \<Rightarrow> 'a list \<Rightarrow> nat \<Rightarrow> 'a list" where
  "insert_pivot c workArray start =
     (let pivot = workArray ! start;
          left = BinarySearch c pivot workArray 0 start
      in take left workArray @ pivot # drop left (take start workArray) @ drop (Suc start) workArray)"

definition BinaryInsertionSort :: "('a \<Rightarrow> 'a \<Rightarrow> number) \<Rightarrow> 'a list \<Rightarrow> nat \<Rightarrow> 'a list" where
  "BinaryInsertionSort c workArray start = foldl (insert_pivot c) workArray [start..<length workArray]"

definition Array_sort :: "('a \<Rightarrow> 'a \<Rightarrow> number) \<Rightarrow> 'a list \<Rightarrow> 'a list option" where
  "Array_sort c xs =
     (if length xs < 2 then Some xs
      else if length xs < 64
      then (case CountAndMakeRun c xs of (workArray, runLength) \<Rightarrow>
              Some (BinaryInsertionSort c workArray runLength))
      else None)"

text \<open>The analyzer is a singleton object whose one mutable field is the history buffer.\<close>

record DemandAnalyzer =
  historicalData :: "EnergyData list"

definition DemandAnalyzer_new :: DemandAnalyzer where
  "DemandAnalyzer_new = \<lparr>historicalData = []\<rparr>"

text \<open>
  \<open>d.setDate(d.getDate() - 30)\<close> on the time value of \<open>d\<close>: 30 days of 24 hours earlier, the
  host's local time being UTC.
\<close>

definition thirty_days_before :: "int \<Rightarrow> int" where
  "thirty_days_before t = t - 30 * 86400000"

definition by_timestamp :: "EnergyData \<Rightarrow> EnergyData \<Rightarrow> number" where
  "by_timestamp a b = getTime (timestamp a) - getTime (timestamp b)"

text \<open>
  \<open>updateHistoricalData\<close> itself never fails; its model has no result (\<open>None\<close>) only where
  the model of \<open>sort\<close> has none, for a buffer of 64 or more readings.
\<close>

definition updateHistoricalData ::
    "world \<Rightarrow> DemandAnalyzer \<Rightarrow> EnergyData list \<Rightarrow> (DemandAnalyzer \<times> world) option" where
  "updateHistoricalData w this data =
     (case Array_sort by_timestamp (historicalData this @ data) of
        None \<Rightarrow> None
      | Some merged \<Rightarrow>
          (let this1 = this\<lparr>historicalData := merged\<rparr>;
               (now, w1) = Date_now w;
               thirtyDaysAgo = thirty_days_before now;
               this2 = this1\<lparr>historicalData :=
                         filter (\<lambda>reading. Fin (of_int thirtyDaysAgo) \<le> getTime (timestamp reading))
                           (historicalData this1)\<rparr>
           in Some (this2, w1)))"

section \<open>Environments and readings for concrete runs\<close>

definition world0 :: world where
  "world0 = \<lparr>uuids = (\<lambda>n. ''uuid''), clock = (\<lambda>n. 0), randoms = (\<lambda>n. 0)\<rparr>"

definition morning_reading :: EnergyData where
  "morning_reading = \<lparr>timestamp = Time 21600000, value = Fin 50\<rparr>"


definition two_readings :: "EnergyData list" where
  "two_readings =
     [\<lparr>timestamp = Time 36000000, value = Fin 100\<rparr>, \<lparr>timestamp = Time 21600000, value = Fin 50\<rparr>]"

text \<open>
  An environment whose clock stands at day 40 of the epoch, and two batches of readings:
  one with a timestamp that does not parse between two that do, and the same batch without
  that reading.
\<close>

definition world_day40 :: world where
  "world_day40 = \<lparr>uuids = (\<lambda>n. ''uuid''), clock = (\<lambda>n. 3456000000), randoms = (\<lambda>n. 0)\<rparr>"

definition malformed_batch :: "EnergyData list" where
  "malformed_batch =
     [\<lparr>timestamp = Time 3000000000, value = Fin 2\<rparr>,
      \<lparr>timestamp = InvalidDate, value = Fin 9\<rparr>,
      \<lparr>timestamp = Time 2900000000, value = Fin 3\<rparr>]"

definition wellformed_batch :: "EnergyData list" where
  "wellformed_batch =
     [\<lparr>timestamp = Time 3000000000, value = Fin 2\<rparr>,
      \<lparr>timestamp = Time 2900000000, value = Fin 3\<rparr>]"

section \<open>The specification's formulas\<close>

text \<open>The cost of one reading: its value times the rate of its hour.\<close>

definition cost_of :: "EnergyData \<Rightarrow> number" where
  "cost_of reading = snd (reading_cost reading)"

text \<open>
  The specification's time-of-use cost of a (weekday, hour) pair: the average value of the
  readings that fall on it times the applicable rate (the peak rate for the hours 9 to 17),
  and 0 when no reading falls on it.
\<close>

definition spec_tou_cost :: "EnergyData list \<Rightarrow> nat \<Rightarrow> nat \<Rightarrow> number" where
  "spec_tou_cost data wd hr =
     (let matching =
            filter (\<lambda>r. getDay (timestamp r) = Some wd \<and> getHours (timestamp r) = Some hr) data
      in if matching = [] then Fin 0
         else (reduce_add value matching / len matching)
                * (if 9 \<le> hr \<and> hr \<le> 17 then PEAK_RATE else OFF_PEAK_RATE))"

text \<open>The specification's percentage change, \<open>(current - previous) / previous * 100\<close>.\<close>

definition spec_percentage_change :: "number \<Rightarrow> number \<Rightarrow> number" where
  "spec_percentage_change current' previous = ((current' - previous) / previous) * Fin 100"

section \<open>The history buffer's invariant\<close>

text \<open>A reading whose timestamp string parses to a date.\<close>

definition parseable :: "EnergyData \<Rightarrow> bool" where
  "parseable reading = (timestamp reading \<noteq> InvalidDate)"

text \<open>Sorted ascending by timestamp: a reading's time is at most the time of any later one.\<close>

definition sorted_by_timestamp :: "EnergyData list \<Rightarrow> bool" where
  "sorted_by_timestamp xs = sorted_wrt (\<lambda>a b. getTime (timestamp a) \<le> getTime (timestamp b)) xs"

text \<open>Every reading's timestamp is at or after the moment \<open>now\<close> minus 30 days.\<close>

definition within_window :: "int \<Rightarrow> EnergyData list \<Rightarrow> bool" where
  "within_window now xs =
     list_all (\<lambda>reading. Fin (of_int (now - 30 * 86400000)) \<le> getTime (timestamp reading)) xs"

section \<open>Two calls, and the fields that come from the environment\<close>

text \<open>An environment in which every draw is fresh.\<close>

definition world_fresh :: world where
  "world_fresh = \<lparr>uuids = (\<lambda>n. ''uuid-'' @ digits n), clock = (\<lambda>n. int n), randoms = (\<lambda>n. 1 / (2 + real n))\<rparr>"

text \<open>Two calls in a row with the same input: the second call runs in the environment the first
  one leaves.\<close>

definition analyzeCosts_twice ::
    "world \<Rightarrow> EnergyData list \<Rightarrow> EnergyData list \<Rightarrow> error + CostAnalysis \<times> CostAnalysis" where
  "analyzeCosts_twice w currentData previousData =
     (case analyzeCosts w currentData previousData of
        Inl e \<Rightarrow> Inl e
      | Inr (first, w1) \<Rightarrow>
          (case analyzeCosts w1 currentData previousData of
             Inl e \<Rightarrow> Inl e
           | Inr (second, w2) \<Rightarrow> Inr (first, second)))"

definition analyzeSustainability_twice ::
    "world \<Rightarrow> EnergyData list \<Rightarrow> SustainabilityMetrics \<times> SustainabilityMetrics" where
  "analyzeSustainability_twice w data =
     (case analyzeSustainability w data of
        (first, w1) \<Rightarrow> (case analyzeSustainability w1 data of (second, w2) \<Rightarrow> (first, second)))"

text \<open>The environment after \<open>u\<close> identifiers, \<open>c\<close> clock readings and \<open>r\<close> random numbers were drawn.\<close>

definition advance :: "nat \<Rightarrow> nat \<Rightarrow> nat \<Rightarrow> world \<Rightarrow> world" where
  "advance u c r w =
     w\<lparr>uuids := \<lambda>n. uuids w (n + u), clock := \<lambda>n. clock w (n + c), randoms := \<lambda>n. randoms w (n + r)\<rparr>"

text \<open>
  A report with the fields that are drawn from the environment (identifiers, clock readings
  and random numbers, and what is computed from them) blanked; all other fields are kept.
\<close>

definition blank_breakdown :: "CostBreakdown \<Rightarrow> CostBreakdown" where
  "blank_breakdown b = b\<lparr>CostBreakdown.id' := '''', created_at := InvalidDate\<rparr>"

definition blank_forecast :: "CostForecast \<Rightarrow> CostForecast" where
  "blank_forecast f = f\<lparr>CostForecast.date := 0\<rparr>"

definition blank_opportunity :: "CostSavingOpportunity \<Rightarrow> CostSavingOpportunity" where
  "blank_opportunity x = x\<lparr>CostSavingOpportunity.id' := ''''\<rparr>"

definition blank_cost_analysis :: "CostAnalysis \<Rightarrow> CostAnalysis" where
  "blank_cost_analysis r =
     r\<lparr>breakdown := blank_breakdown (breakdown r),
       CostAnalysis.forecast := map blank_forecast (CostAnalysis.forecast r),
       savingOpportunities := map blank_opportunity (savingOpportunities r)\<rparr>"

definition blank_emission_forecast :: "EmissionForecast \<Rightarrow> EmissionForecast" where
  "blank_emission_forecast f = f\<lparr>EmissionForecast.timestamp' := InvalidDate, predictedEmissions := NaN\<rparr>"

definition blank_carbon :: "CarbonFootprint \<Rightarrow> CarbonFootprint" where
  "blank_carbon c = c\<lparr>CarbonFootprint.forecast := map blank_emission_forecast (CarbonFootprint.forecast c)\<rparr>"

definition blank_equipment :: "string \<times> EquipmentScore \<Rightarrow> string \<times> EquipmentScore" where
  "blank_equipment e = (fst e, (snd e)\<lparr>maintenance := (maintenance (snd e))\<lparr>nextService := InvalidDate\<rparr>\<rparr>)"

definition blank_efficiency :: "EfficiencyMetrics \<Rightarrow> EfficiencyMetrics" where
  "blank_efficiency e = e\<lparr>equipmentScores := map blank_equipment (equipmentScores e)\<rparr>"

definition blank_recommendation :: "SustainabilityRecommendation \<Rightarrow> SustainabilityRecommendation" where
  "blank_recommendation r = r\<lparr>SustainabilityRecommendation.id' := ''''\<rparr>"

definition blank_progress :: "HistoricalProgress \<Rightarrow> HistoricalProgress" where
  "blank_progress h = h\<lparr>HistoricalProgress.timestamp' := InvalidDate, score := NaN\<rparr>"

definition blank_score_forecast :: "ScoreForecast \<Rightarrow> ScoreForecast" where
  "blank_score_forecast f = f\<lparr>ScoreForecast.timestamp' := InvalidDate, predictedScore := NaN\<rparr>"

definition blank_score :: "SustainabilityScore \<Rightarrow> SustainabilityScore" where
  "blank_score s =
     s\<lparr>recommendations := map blank_recommendation (recommendations s),
       historicalProgress := map blank_progress (historicalProgress s),
       forecast := map blank_score_forecast (forecast s)\<rparr>"

definition blank_daily :: "DailyEfficiency \<Rightarrow> DailyEfficiency" where
  "blank_daily d = d\<lparr>DailyEfficiency.efficiency := NaN\<rparr>"

definition blank_insights :: "MLSustainabilityInsights \<Rightarrow> MLSustainabilityInsights" where
  "blank_insights m = m\<lparr>patterns := (patterns m)\<lparr>daily := map blank_daily (daily (patterns m))\<rparr>\<rparr>"

definition blank_sustainability :: "SustainabilityMetrics \<Rightarrow> SustainabilityMetrics" where
  "blank_sustainability m =
     m\<lparr>carbonFootprint := blank_carbon (carbonFootprint m),
       efficiency := blank_efficiency (efficiency m),
       sustainabilityScore := blank_score (sustainabilityScore m),
       mlInsights := blank_insights (mlInsights m)\<rparr>"

section \<open>Properties of the cost analyzer\<close>

lemmas rates = PEAK_RATE_def OFF_PEAK_RATE_def DEMAND_CHARGE_RATE_def FIXED_CHARGE_def TAX_RATE_def

lemma calculateBreakdown_Nil:
  "calculateBreakdown w [] =
     (\<lparr>CostBreakdown.id' = uuids w 0, energy_data_id = '''', peak_cost = Fin 0, off_peak_cost = Fin 0,
       demand_charges = Fin 0, fixed_charges = Fin 50, taxes = Fin 4, other_charges = Fin 0,
       created_at = Time (clock w 0)\<rparr>,
      w\<lparr>uuids := \<lambda>n. uuids w (Suc n), clock := \<lambda>n. clock w (Suc n)\<rparr>)"
  by (simp add: calculateBreakdown_def randomUUID_def Date_now_def rates Let_def)

lemma generateForecast_Nil_Inr: "\<exists>r. generateForecast w [] = Inr r"
  by (simp add: generateForecast_def alloc_def Let_def)

lemma generateMLInsights_Nil_Inr: "\<exists>r. generateMLInsights [] = Inr r"
  by (simp add: generateMLInsights_def alloc_def Let_def)

subsection \<open>C3: the breakdown of the empty reading array\<close>

text \<open>
  C3, as stated, asks every monetary field of the breakdown of the empty array to be 0.
  The fixed charge is the constant 50 whatever the readings, and the taxes are 8% of a
  subtotal that includes it: at the empty array \<open>fixed_charges\<close> is 50, not 0.
\<close>

theorem C3_fixed_charges_counterexample:
  "fixed_charges (fst (calculateBreakdown world0 [])) \<noteq> Fin 0"
  by (simp add: calculateBreakdown_Nil)

text \<open>
  C3, amended: for the empty reading array \<open>calculateBreakdown\<close>, and with it the breakdown
  that \<open>analyzeCosts\<close> returns, has \<open>peak_cost\<close>, \<open>off_peak_cost\<close>, \<open>demand_charges\<close> and
  \<open>other_charges\<close> equal to 0, \<open>fixed_charges\<close> equal to the constant 50 and \<open>taxes\<close> equal
  to 4 (8% of the fixed charge).
\<close>

theorem C3_empty_breakdown:
  "fst (calculateBreakdown w []) =
     \<lparr>CostBreakdown.id' = uuids w 0, energy_data_id = '''', peak_cost = Fin 0, off_peak_cost = Fin 0,
      demand_charges = Fin 0, fixed_charges = Fin 50, taxes = Fin 4, other_charges = Fin 0,
      created_at = Time (clock w 0)\<rparr>
   \<and> map_sum id (breakdown \<circ> fst) (analyzeCosts w [] []) = Inr (fst (calculateBreakdown w []))"
proof -
  obtain f where f: "generateForecast (snd (calculateComparison (snd (calculateBreakdown w [])) [] [])) [] = Inr f"
    using generateForecast_Nil_Inr by blast
  obtain m where m: "generateMLInsights [] = Inr m"
    using generateMLInsights_Nil_Inr by blast
  show ?thesis
    using f m by (simp add: analyzeCosts_def Let_def split_beta calculateBreakdown_Nil)
qed

subsection \<open>C1: the ratios of \<open>calculateMetrics\<close> on a zero denominator\<close>

lemma divide_by_zero: "x / Fin 0 \<in> {NaN, Infinity, NegInfinity}"
  by (cases x) simp_all

text \<open>
  C1 asks each ratio of \<open>calculateMetrics\<close> to be 0 when its denominator is 0.  No division
  of \<open>calculateMetrics\<close> is guarded: for the empty reading array, where the repository's test
  expects \<open>averageCostPerKwh\<close> to be 0, all four ratios are \<open>0 / 0\<close>, that is \<open>NaN\<close>; and
  whatever the breakdown, a peak usage of 0 makes \<open>peakCostPerKwh\<close>, and a total usage of 0
  makes \<open>averageCostPerKwh\<close>, \<open>NaN\<close> or an infinity, never 0.
\<close>

theorem C1_metrics_division_by_zero:
  "map_sum id (metrics \<circ> fst) (analyzeCosts w [] []) =
     Inr \<lparr>averageCostPerKwh = NaN, peakCostPerKwh = NaN, offPeakCostPerKwh = NaN, demandCostPerKw = NaN\<rparr>
   \<and> peakCostPerKwh (calculateMetrics b totalKwh (Fin 0)) \<in> {NaN, Infinity, NegInfinity}
   \<and> averageCostPerKwh (calculateMetrics b (Fin 0) peakKwh) \<in> {NaN, Infinity, NegInfinity}"
proof -
  obtain f where f: "generateForecast (snd (calculateComparison (snd (calculateBreakdown w [])) [] [])) [] = Inr f"
    using generateForecast_Nil_Inr by blast
  obtain m where m: "generateMLInsights [] = Inr m"
    using generateMLInsights_Nil_Inr by blast
  have "map_sum id (metrics \<circ> fst) (analyzeCosts w [] []) =
     Inr \<lparr>averageCostPerKwh = NaN, peakCostPerKwh = NaN, offPeakCostPerKwh = NaN, demandCostPerKw = NaN\<rparr>"
    using f m
    by (simp add: analyzeCosts_def Let_def split_beta calculateMetrics_def calculateBreakdown_Nil
        reduce_add_def minus_number_def PEAK_RATE_def)
  moreover have "peakCostPerKwh (calculateMetrics b totalKwh (Fin 0)) \<in> {NaN, Infinity, NegInfinity}"
    unfolding calculateMetrics_def CostMetrics.simps by (rule divide_by_zero)
  moreover have "averageCostPerKwh (calculateMetrics b (Fin 0) peakKwh) \<in> {NaN, Infinity, NegInfinity}"
    unfolding calculateMetrics_def CostMetrics.simps by (rule divide_by_zero)
  ultimately show ?thesis by blast
qed

subsection \<open>Helper lemmas: loops and the environment\<close>

lemma fst_mapW_map:
  assumes "\<And>x w. h (fst (f x w)) = g x"
  shows "map h (fst (mapW f xs w)) = map g xs"
  using assms by (induction xs arbitrary: w) (simp_all add: split_beta)

lemma length_fst_mapW: "length (fst (mapW f xs w)) = length xs"
  by (induction xs arbitrary: w) (simp_all add: split_beta)

lemma foldl_push: "foldl (\<lambda>acc x. acc @ [f x]) acc xs = acc @ map f xs"
  by (induction xs arbitrary: acc) simp_all

lemma foldl_push_all: "foldl (\<lambda>acc x. acc @ g x) acc xs = acc @ concat (map g xs)"
  by (induction xs arbitrary: acc) simp_all

lemma eq_Some: "eq x n \<longleftrightarrow> x = Some n"
  by (cases x) auto

lemma getHours_valid: "d \<noteq> InvalidDate \<Longrightarrow> \<exists>h<24. getHours d = Some h"
  by (cases d) (auto intro: exI[of _ "nat (x mod 24)" for x])

lemma morning_calendar:
  "getHours (Time 21600000) = Some 6" "getDay (Time 21600000) = Some 4" "getMonth (Time 21600000) = Some 0"
  by code_simp+

subsection \<open>C2: the hourly forecast\<close>

text \<open>
  All 24 slots of \<open>hourlyAverages\<close> hold the same accumulator object, so every reading is
  added to the one accumulator whatever its hour, and all 24 entries of the forecast carry
  the average cost of all readings.
\<close>

lemma forecast_step_shared:
  assumes "timestamp reading \<noteq> InvalidDate"
  shows "forecast_step (Array_fill 24 0) [b] reading =
           Inr [\<lparr>sum' = sum' b + cost_of reading, count' = Suc (count' b)\<rparr>]"
proof -
  obtain h where "h < 24" "getHours (timestamp reading) = Some h"
    using getHours_valid[OF assms] by blast
  then show ?thesis
    by (simp add: forecast_step_def accumulate_def Array_fill_def cost_of_def reading_cost_def Let_def)
qed

lemma forEach_forecast_shared:
  assumes "\<forall>r\<in>set data. timestamp r \<noteq> InvalidDate"
  shows "forEach (forecast_step (Array_fill 24 0)) [b] data =
           Inr [\<lparr>sum' = foldl (\<lambda>sum x. sum + cost_of x) (sum' b) data, count' = count' b + length data\<rparr>]"
  using assms
proof (induction data arbitrary: b)
  case Nil
  then show ?case by simp
next
  case (Cons r data)
  then show ?case by (simp add: forecast_step_shared)
qed

lemma generateForecast_shared_average:
  assumes "\<forall>r\<in>set data. timestamp r \<noteq> InvalidDate"
  shows "map_sum id (map predictedCost \<circ> fst) (generateForecast w data) =
           Inr (replicate 24 (if data = [] then Fin 0 else reduce_add cost_of data / len data))"
proof -
  let ?h = "[\<lparr>sum' = reduce_add cost_of data, count' = length data\<rparr>]"
  have run: "forEach (forecast_step (Array_fill 24 0)) [\<lparr>sum' = Fin 0, count' = 0\<rparr>] data = Inr ?h"
    using forEach_forecast_shared[OF assms, of "\<lparr>sum' = Fin 0, count' = 0\<rparr>"]
    by (simp add: reduce_add_def)
  have entry: "\<And>x w. predictedCost (fst (forecast_entry ?h x w)) = average (?h ! fst x)"
    by (simp add: forecast_entry_def Let_def split_beta)
  have "map predictedCost (fst (mapW (forecast_entry ?h) (indexed (Array_fill 24 0)) w)) =
          map (\<lambda>x. average (?h ! fst x)) (indexed (Array_fill 24 0))"
    by (rule fst_mapW_map) (rule entry)
  also have "\<dots> = map (\<lambda>r. average (?h ! r)) (map fst (indexed (Array_fill 24 0)))"
    by (simp add: comp_def)
  also have "\<dots> = replicate 24 (average (?h ! 0))"
    by (simp add: indexed_def Array_fill_def)
  also have "average (?h ! 0) = (if data = [] then Fin 0 else reduce_add cost_of data / len data)"
    by (simp add: average_def len_def reduce_add_def)
  finally show ?thesis
    using run by (simp add: generateForecast_def alloc_def Let_def)
qed

text \<open>
  C2 asks the forecast entry of hour \<open>h\<close> to carry the mean cost of the readings of hour
  \<open>h\<close>, and 0 when there is none.  For a reading of 100 at 10 o'clock (cost 15) and one of 50
  at 6 o'clock (cost 4) that is 15 at hour 10, 4 at hour 6 and 0 elsewhere; the code returns
  24 entries that all predict 9.5, the mean of the two costs.
\<close>

theorem C2_forecast_two_readings:
  "map (getHours \<circ> timestamp) two_readings = [Some 10, Some 6]
   \<and> map cost_of two_readings = [Fin 15, Fin 4]
   \<and> map_sum id (map predictedCost \<circ> fst) (generateForecast world0 two_readings) =
       Inr (replicate 24 (Fin 9.5))"
proof -
  have "map_sum id (map predictedCost \<circ> fst) (generateForecast world0 two_readings) =
       Inr (replicate 24 (Fin 9.5))"
    by (subst generateForecast_shared_average)
       (simp_all add: two_readings_def reduce_add_def cost_of_def reading_cost_def len_def rates)
  then show ?thesis
    by (simp add: two_readings_def cost_of_def reading_cost_def rates)
qed

subsection \<open>C8: the time-of-use grid\<close>

lemma tou_entry_spec:
  "tou_entry data wd hr = \<lparr>TimeOfUseCost.hour = hr, weekday = wd, cost = spec_tou_cost data wd hr\<rparr>"
  by (simp add: tou_entry_def spec_tou_cost_def Let_def eq_Some reduce_add_def rates)

text \<open>
  C8: for every reading set, the empty one included, \<open>generateTimeOfUseCosts\<close> returns
  exactly 168 entries, one for each (weekday 0 to 6, hour 0 to 23) pair, weekday by weekday,
  and the cost of an entry is the specification's: the average value of the readings on that
  weekday and hour times the applicable rate, and 0 when no reading matches.
\<close>

theorem C8_time_of_use_grid:
  "generateTimeOfUseCosts data =
     concat (map (\<lambda>wd. map (\<lambda>hr. \<lparr>TimeOfUseCost.hour = hr, weekday = wd,
                                    cost = spec_tou_cost data wd hr\<rparr>) [0..<24]) [0..<7])
   \<and> length (generateTimeOfUseCosts data) = 168"
proof -
  have grid: "generateTimeOfUseCosts data =
     concat (map (\<lambda>wd. map (\<lambda>hr. \<lparr>TimeOfUseCost.hour = hr, weekday = wd,
                                    cost = spec_tou_cost data wd hr\<rparr>) [0..<24]) [0..<7])"
    unfolding generateTimeOfUseCosts_def foldl_push foldl_push_all tou_entry_spec by simp
  have "length (generateTimeOfUseCosts data) = 168"
    unfolding grid by (simp add: length_concat comp_def sum_list_triv)
  with grid show ?thesis by simp
qed

subsection \<open>C9: one anomaly entry per reading\<close>

lemma severity_of: "CostAnomaly.severity (anomaly_of a s r) \<in> {''low'', ''medium'', ''high''}"
  by (simp add: anomaly_of_def Let_def)

text \<open>
  C9: \<open>detectAnomalies\<close> returns exactly one entry per reading, in the order of the readings
  (the entry's \<open>date\<close> is the reading's timestamp): no reading is filtered out.  Every
  entry's severity is one of low, medium and high, and the empty input yields the empty list.
\<close>

theorem C9_one_anomaly_per_reading:
  "length (detectAnomalies data) = length data
   \<and> map CostAnomaly.date (detectAnomalies data) = map timestamp data
   \<and> set (map CostAnomaly.severity (detectAnomalies data)) \<subseteq> {''low'', ''medium'', ''high''}
   \<and> detectAnomalies [] = []"
proof -
  have d: "map CostAnomaly.date (detectAnomalies data) = map timestamp data"
    by (simp add: detectAnomalies_def Let_def anomaly_of_def reading_cost_def comp_def)
  have s: "set (map CostAnomaly.severity (detectAnomalies data)) \<subseteq> {''low'', ''medium'', ''high''}"
    unfolding detectAnomalies_def Let_def set_map image_image
    by (rule image_subsetI) (rule severity_of)
  show ?thesis using d s by (simp add: detectAnomalies_def Let_def)
qed

subsection \<open>C6: the period comparison\<close>

lemma calculateBreakdown_costs:
  "peak_cost (fst (calculateBreakdown w data)) = fst (foldl breakdown_step (Fin 0, Fin 0, Fin 0) data)"
  "off_peak_cost (fst (calculateBreakdown w data)) = fst (snd (foldl breakdown_step (Fin 0, Fin 0, Fin 0) data))"
  by (simp_all add: calculateBreakdown_def Let_def split_beta)

lemma calculateComparison_periods:
  "currentPeriod (fst (calculateComparison w cur prev)) =
     (let b = fst (calculateBreakdown w cur)
      in \<lparr>totalCost = peak_cost b + off_peak_cost b,
          averageCost = (peak_cost b + off_peak_cost b) / len cur,
          peakCosts = peak_cost b,
          offPeakCosts = off_peak_cost b\<rparr>)"
  "previousPeriod (fst (calculateComparison w cur prev)) =
     (let b = fst (calculateBreakdown (snd (calculateBreakdown w cur)) prev)
      in \<lparr>totalCost = peak_cost b + off_peak_cost b,
          averageCost = (peak_cost b + off_peak_cost b) / len prev,
          peakCosts = peak_cost b,
          offPeakCosts = off_peak_cost b\<rparr>)"
  by (simp_all add: calculateComparison_def Let_def split_beta)

lemma percentage_formula:
  "percentageChange (fst (calculateComparison w cur prev)) =
     (let c = currentPeriod (fst (calculateComparison w cur prev));
          p = previousPeriod (fst (calculateComparison w cur prev))
      in \<lparr>totalCost = spec_percentage_change (totalCost c) (totalCost p),
          averageCost = spec_percentage_change (averageCost c) (averageCost p),
          peakCosts = spec_percentage_change (peakCosts c) (peakCosts p),
          offPeakCosts = spec_percentage_change (offPeakCosts c) (offPeakCosts p)\<rparr>)"
  by (simp add: calculateComparison_def Let_def split_beta spec_percentage_change_def)

lemma self_comparison:
  "previousPeriod (fst (calculateComparison w cur cur)) = currentPeriod (fst (calculateComparison w cur cur))"
  by (simp add: calculateComparison_periods calculateBreakdown_costs Let_def)

lemma no_previous: "analyzeCosts w cur [] = analyzeCosts w cur cur"
  by (cases cur) (simp_all add: analyzeCosts_def)

lemma generateForecast_morning: "\<exists>x. generateForecast w [morning_reading] = Inr x"
  by (simp add: generateForecast_def alloc_def Let_def forecast_step_def accumulate_def Array_fill_def
      morning_reading_def)

lemma generateMLInsights_morning: "\<exists>x. generateMLInsights [morning_reading] = Inr x"
  by (simp add: generateMLInsights_def alloc_def Let_def insights_step_def accumulate_def Array_fill_def
      morning_reading_def morning_calendar del: getHours.simps getDay.simps getMonth.simps)

lemma percentage_change_of_zero:
  "spec_percentage_change (Fin x) (Fin 0) =
     (if x = 0 then NaN else if 0 < x then Infinity else NegInfinity)"
  by (simp add: spec_percentage_change_def minus_number_def)

text \<open>
  What \<open>calculateComparison\<close> does do: each percentage-change field is computed by the
  formula \<open>(current - previous) / previous * 100\<close>, and a call of \<open>analyzeCosts\<close> with no (or
  an empty) previous set is the call that gives the current set as the previous one, so
  that the two periods are equal.  The formula gives 0 for two equal values other than 0;
  for a previous value of 0 it gives \<open>NaN\<close> or an infinity (lemma
  \<open>percentage_change_of_zero\<close>), because the division is not guarded.
\<close>

lemma comparison_formula_and_self_comparison:
  "percentageChange (fst (calculateComparison w cur prev)) =
     (let c = currentPeriod (fst (calculateComparison w cur prev));
          p = previousPeriod (fst (calculateComparison w cur prev))
      in \<lparr>totalCost = spec_percentage_change (totalCost c) (totalCost p),
          averageCost = spec_percentage_change (averageCost c) (averageCost p),
          peakCosts = spec_percentage_change (peakCosts c) (peakCosts p),
          offPeakCosts = spec_percentage_change (offPeakCosts c) (offPeakCosts p)\<rparr>)
   \<and> analyzeCosts w cur [] = analyzeCosts w cur cur
   \<and> previousPeriod (fst (calculateComparison w cur cur)) =
       currentPeriod (fst (calculateComparison w cur cur))
   \<and> (x \<noteq> 0 \<longrightarrow> spec_percentage_change (Fin x) (Fin x) = Fin 0)"
proof -
  have same: "x \<noteq> 0 \<longrightarrow> spec_percentage_change (Fin x) (Fin x) = Fin 0"
    by (simp add: spec_percentage_change_def minus_number_def)
  show ?thesis
    using percentage_formula[of w cur prev] no_previous[of w cur] self_comparison[of w cur] same
    by blast
qed

text \<open>
  C6 asks for a percentage change of 0 whenever the previous value is 0, and for 0% in every
  field when no previous set is given.  The dashboard's other computation of the same
  \<open>CostComparison.percentageChange\<close> fields (\<open>getCostComparison\<close> in
  \<open>src/lib/supabase/queries.ts\<close>) has that guard, \<open>previous === 0 ? 0 : ...\<close>, and the
  analyzer's own \<open>generateForecast\<close>, \<open>generateTimeOfUseCosts\<close> and \<open>generateMLInsights\<close>
  guard their divisions; \<open>calculateComparison\<close> divides without one.  For a single reading of
  50 at 6 o'clock and no previous set, the comparison is of the set with itself, the
  previous period's peak cost is 0, and the percentage change of the peak costs is
  \<open>0 / 0 * 100\<close>, that is \<open>NaN\<close>, where the claim has 0.
\<close>

theorem C6_comparison_division_by_zero:
  "map_sum id ((\<lambda>c. (peakCosts (previousPeriod c), peakCosts (percentageChange c))) \<circ> comparison \<circ> fst)
     (analyzeCosts world0 [morning_reading] []) = Inr (Fin 0, NaN)"
proof -
  obtain f where f: "generateForecast (snd (calculateComparison (snd (calculateBreakdown world0 [morning_reading])) [morning_reading] [morning_reading])) [morning_reading] = Inr f"
    using generateForecast_morning by blast
  obtain m where m: "generateMLInsights [morning_reading] = Inr m"
    using generateMLInsights_morning by blast
  have b: "breakdown_step (Fin 0, Fin 0, Fin 0) morning_reading = (Fin 0, Fin 4, Fin 0)"
    by (simp add: breakdown_step_def morning_reading_def rates)
  show ?thesis
    using f m
    by (simp add: analyzeCosts_def Let_def split_beta percentage_formula calculateComparison_periods
        calculateBreakdown_costs b spec_percentage_change_def minus_number_def)
qed

section \<open>Properties of the sustainability analyzer\<close>

lemma push_if_kinds:
  "map h (fst (push_if c mk st)) = map h (fst st) @ (if c then [h (mk (uuids (snd st) 0))] else [])"
  by (simp add: push_if_def split_beta randomUUID_def)

lemma recommendation_kinds:
  "map (\<lambda>r. (category r, priority r)) (fst (generateRecommendations w scores)) =
     (if carbonScore scores < Fin 70 then [(''carbon'', ''high'')] else [])
     @ (if renewableScore scores < Fin 50 then [(''renewable'', ''medium'')] else [])"
  by (simp add: generateRecommendations_def Let_def push_if_kinds carbonRecommendation_def
      renewableRecommendation_def)

lemma score_components:
  "components (fst (calculateSustainabilityScore w c r e)) =
     \<lparr>carbonScore = Math_min (Fin 100) ((Fin 1 - emissionsPerKwh c / BASELINE_EMISSIONS) * Fin 100),
      renewableScore = RenewableEnergy.percentage r,
      efficiencyScore = (peakEfficiency e + offPeakEfficiency e) / Fin 2,
      wasteScore = Math_max (Fin 0) (Fin 100 - (wasteEnergy e / Fin 10))\<rparr>"
  by (simp add: calculateSustainabilityScore_def Let_def split_beta)

lemma score_recommendations:
  "\<exists>w'. recommendations (fst (calculateSustainabilityScore w c r e)) =
     fst (generateRecommendations w' (components (fst (calculateSustainabilityScore w c r e))))"
  by (simp add: calculateSustainabilityScore_def Let_def split_beta) blast

lemma analyzeSustainability_fields:
  "carbonFootprint (fst (analyzeSustainability w data)) = fst (calculateCarbonFootprint w data)"
  "renewableEnergy (fst (analyzeSustainability w data)) = calculateRenewableMetrics data"
  by (simp_all add: analyzeSustainability_def Let_def split_beta)

lemma analyzeSustainability_score:
  "\<exists>w'. sustainabilityScore (fst (analyzeSustainability w data)) =
     fst (calculateSustainabilityScore w' (fst (calculateCarbonFootprint w data)) (calculateRenewableMetrics data)
            (fst (calculateEfficiencyMetrics (snd (calculateCarbonFootprint w data)) data)))"
  by (simp add: analyzeSustainability_def Let_def split_beta) blast

lemma carbon_fields:
  "totalEmissions (fst (calculateCarbonFootprint w data)) = reduce_add value data * Fin 0.4"
  "emissionsPerKwh (fst (calculateCarbonFootprint w data)) = (reduce_add value data * Fin 0.4) / reduce_add value data"
  by (simp_all add: calculateCarbonFootprint_def Let_def split_beta)

lemma renewable_percentage:
  "RenewableEnergy.percentage (calculateRenewableMetrics data) =
     ((reduce_add value data * Fin 0.15 + reduce_add value data * Fin 0.25) / reduce_add value data) * Fin 100"
  by (simp add: calculateRenewableMetrics_def Let_def)

lemma kinds_of_analysis:
  "map (\<lambda>r. (category r, priority r)) (recommendations (sustainabilityScore (fst (analyzeSustainability w data)))) =
     (if Math_min (Fin 100) ((Fin 1 - emissionsPerKwh (fst (calculateCarbonFootprint w data)) / BASELINE_EMISSIONS) * Fin 100) < Fin 70
      then [(''carbon'', ''high'')] else [])
     @ (if RenewableEnergy.percentage (calculateRenewableMetrics data) < Fin 50 then [(''renewable'', ''medium'')] else [])"
proof -
  obtain w1 where s: "sustainabilityScore (fst (analyzeSustainability w data)) =
     fst (calculateSustainabilityScore w1 (fst (calculateCarbonFootprint w data)) (calculateRenewableMetrics data)
            (fst (calculateEfficiencyMetrics (snd (calculateCarbonFootprint w data)) data)))"
    using analyzeSustainability_score by blast
  obtain w2 where r: "recommendations (sustainabilityScore (fst (analyzeSustainability w data))) =
     fst (generateRecommendations w2 (components (sustainabilityScore (fst (analyzeSustainability w data)))))"
    unfolding s using score_recommendations by blast
  show ?thesis
    unfolding r recommendation_kinds unfolding s score_components by simp
qed

text \<open>
  C7 asks the analysis of the empty reading array to return without throwing, with all-zero
  metrics.  It does return, with total emissions 0 and no recommendation, but the divisions
  by the total usage are not guarded: the renewable percentage, which the repository's test
  expects to be 0, is \<open>0 / 0 * 100\<close>, that is \<open>NaN\<close>, and so are the emissions per kWh.
\<close>

theorem C7_empty_sustainability:
  "totalEmissions (carbonFootprint (fst (analyzeSustainability w []))) = Fin 0
   \<and> RenewableEnergy.percentage (renewableEnergy (fst (analyzeSustainability w []))) = NaN
   \<and> emissionsPerKwh (carbonFootprint (fst (analyzeSustainability w []))) = NaN
   \<and> recommendations (sustainabilityScore (fst (analyzeSustainability w []))) = []"
proof -
  have k: "map (\<lambda>r. (category r, priority r)) (recommendations (sustainabilityScore (fst (analyzeSustainability w [])))) = []"
    unfolding kinds_of_analysis
    by (simp add: carbon_fields renewable_percentage reduce_add_def BASELINE_EMISSIONS_def minus_number_def)
  show ?thesis
    using k by (simp add: analyzeSustainability_fields carbon_fields renewable_percentage reduce_add_def)
qed


text \<open>For a single reading of value 50 both recommendations are returned, in this order.\<close>

lemma recommendations_of_morning_reading:
  "map (\<lambda>r. (category r, priority r))
     (recommendations (sustainabilityScore (fst (analyzeSustainability world0 [morning_reading])))) =
     [(''carbon'', ''high''), (''renewable'', ''medium'')]"
  unfolding kinds_of_analysis
  by (simp add: carbon_fields renewable_percentage reduce_add_def BASELINE_EMISSIONS_def minus_number_def
      morning_reading_def)


section \<open>Properties of the demand analyzer's history buffer\<close>

subsection \<open>The sort, for a comparator that orders by a key\<close>

text \<open>
  Where the comparator's result is below 0 exactly when the key of its first argument is
  below the key of its second, the binary search finds the place of the pivot in a sorted
  run, a round of the insertion sort extends the sorted run by one element, the run that
  \<open>CountAndMakeRun\<close> returns is sorted, and the sort returns the elements in the order of
  their keys.
\<close>

lemma BinarySearch_place:
  fixes k :: "'a \<Rightarrow> int"
  shows "(\<And>x y. x \<in> S \<Longrightarrow> y \<in> S \<Longrightarrow> (Compare c x y < Fin 0) = (k x < k y)) \<Longrightarrow>
         p \<in> S \<Longrightarrow> \<forall>i<start. a ! i \<in> S \<Longrightarrow>
         \<forall>i j. i < j \<and> j < start \<longrightarrow> k (a ! i) \<le> k (a ! j) \<Longrightarrow>
         lo \<le> hi \<Longrightarrow> hi \<le> start \<Longrightarrow> \<forall>i<lo. k (a ! i) \<le> k p \<Longrightarrow>
         \<forall>i. hi \<le> i \<and> i < start \<longrightarrow> k p < k (a ! i) \<Longrightarrow>
         lo \<le> BinarySearch c p a lo hi \<and> BinarySearch c p a lo hi \<le> hi
         \<and> (\<forall>i<BinarySearch c p a lo hi. k (a ! i) \<le> k p)
         \<and> (\<forall>i. BinarySearch c p a lo hi \<le> i \<and> i < start \<longrightarrow> k p < k (a ! i))"
proof (induction c p a lo hi rule: BinarySearch.induct)
  case (1 c pivot workArray left right)
  let ?mid = "left + (right - left) div 2"
  note cmp = "1.prems"(1) and S = "1.prems"(3) and srt = "1.prems"(4)
  show ?case
  proof (cases "left < right")
    case False
    then show ?thesis
      using "1.prems"(5-) by (subst (1 2 3 4) BinarySearch.simps) auto
  next
    case True
    then have m: "left \<le> ?mid" "?mid < right" by auto
    then have ms: "?mid < start" using "1.prems"(6) by simp
    show ?thesis
    proof (cases "Compare c pivot (workArray ! ?mid) < Fin 0")
      case lt: True
      then have klt: "k pivot < k (workArray ! ?mid)"
        using cmp[OF "1.prems"(2)] S ms by blast
      have hi: "\<forall>i. ?mid \<le> i \<and> i < start \<longrightarrow> k pivot < k (workArray ! i)"
      proof (intro allI impI)
        fix i assume i: "?mid \<le> i \<and> i < start"
        then have "k (workArray ! ?mid) \<le> k (workArray ! i)"
          using srt by (cases "?mid = i") auto
        then show "k pivot < k (workArray ! i)" using klt by simp
      qed
      have eq: "BinarySearch c pivot workArray left right = BinarySearch c pivot workArray left ?mid"
        using True lt by (subst BinarySearch.simps) simp
      have "left \<le> BinarySearch c pivot workArray left ?mid \<and> BinarySearch c pivot workArray left ?mid \<le> ?mid
         \<and> (\<forall>i<BinarySearch c pivot workArray left ?mid. k (workArray ! i) \<le> k pivot)
         \<and> (\<forall>i. BinarySearch c pivot workArray left ?mid \<le> i \<and> i < start \<longrightarrow> k pivot < k (workArray ! i))"
        using "1.IH"(1)[OF True lt cmp "1.prems"(2) S srt m(1) _ "1.prems"(7) hi] ms by simp
      then show ?thesis unfolding eq using m by auto
    next
      case ge: False
      then have kge: "k (workArray ! ?mid) \<le> k pivot"
        using cmp[OF "1.prems"(2)] S ms by (metis not_le)
      have lo: "\<forall>i<Suc ?mid. k (workArray ! i) \<le> k pivot"
      proof (intro allI impI)
        fix i assume i: "i < Suc ?mid"
        then have "k (workArray ! i) \<le> k (workArray ! ?mid)"
          using srt ms by (cases "?mid = i") auto
        then show "k (workArray ! i) \<le> k pivot" using kge by simp
      qed
      have eq: "BinarySearch c pivot workArray left right = BinarySearch c pivot workArray (Suc ?mid) right"
        using True ge by (subst BinarySearch.simps) simp
      have "Suc ?mid \<le> BinarySearch c pivot workArray (Suc ?mid) right \<and> BinarySearch c pivot workArray (Suc ?mid) right \<le> right
         \<and> (\<forall>i<BinarySearch c pivot workArray (Suc ?mid) right. k (workArray ! i) \<le> k pivot)
         \<and> (\<forall>i. BinarySearch c pivot workArray (Suc ?mid) right \<le> i \<and> i < start \<longrightarrow> k pivot < k (workArray ! i))"
        using "1.IH"(2)[OF True ge cmp "1.prems"(2) S srt _ "1.prems"(6) lo "1.prems"(8)] m by simp
      then show ?thesis unfolding eq using m by auto
    qed
  qed
qed

lemma insert_pivot_sorted:
  fixes k :: "'a \<Rightarrow> int"
  assumes cmp: "\<And>x y. x \<in> S \<Longrightarrow> y \<in> S \<Longrightarrow> (Compare c x y < Fin 0) = (k x < k y)"
    and S: "set a \<subseteq> S"
    and start: "start < length a"
    and srt: "sorted_wrt (\<lambda>x y. k x \<le> k y) (take start a)"
  shows "length (insert_pivot c a start) = length a"
    and "set (insert_pivot c a start) = set a"
    and "sorted_wrt (\<lambda>x y. k x \<le> k y) (take (Suc start) (insert_pivot c a start))"
proof -
  let ?p = "a ! start"
  let ?l = "BinarySearch c ?p a 0 start"
  have p: "?p \<in> S" using S start by auto
  have Si: "\<forall>i<start. a ! i \<in> S" using S start by auto
  have idx: "\<forall>i j. i < j \<and> j < start \<longrightarrow> k (a ! i) \<le> k (a ! j)"
    using srt start by (auto simp: sorted_wrt_iff_nth_less)
  have place: "0 \<le> ?l \<and> ?l \<le> start \<and> (\<forall>i<?l. k (a ! i) \<le> k ?p)
      \<and> (\<forall>i. ?l \<le> i \<and> i < start \<longrightarrow> k ?p < k (a ! i))"
    by (rule BinarySearch_place[OF cmp p Si idx]) auto
  then have l: "?l \<le> start" by simp
  have new: "insert_pivot c a start = take ?l a @ ?p # drop ?l (take start a) @ drop (Suc start) a"
    by (simp add: insert_pivot_def Let_def)
  show "length (insert_pivot c a start) = length a"
    unfolding new using l start by simp
  have tk: "take ?l a = take ?l (take start a)" using l by (simp add: min_def)
  have t: "take start a = take ?l a @ drop ?l (take start a)"
    using append_take_drop_id[of ?l "take start a"] tk by simp
  have sa: "set a = set (take start a) \<union> insert ?p (set (drop (Suc start) a))"
    using arg_cong[OF id_take_nth_drop[OF start], of set] by simp
  have st: "set (take start a) = set (take ?l a) \<union> set (drop ?l (take start a))"
    using arg_cong[OF t, of set] by simp
  show "set (insert_pivot c a start) = set a"
    unfolding new sa st by auto
  have before: "\<forall>x\<in>set (take ?l a). k x \<le> k ?p"
    using place l start by (auto simp: in_set_conv_nth)
  have after: "\<forall>y\<in>set (drop ?l (take start a)). k ?p < k y"
    using place l start by (auto simp: in_set_conv_nth)
  have s1: "sorted_wrt (\<lambda>x y. k x \<le> k y) (take ?l a)"
    unfolding tk using srt by (rule sorted_wrt_take)
  have s2: "sorted_wrt (\<lambda>x y. k x \<le> k y) (drop ?l (take start a))"
    using srt by (rule sorted_wrt_drop)
  have pre: "take (Suc start) (insert_pivot c a start) = take ?l a @ ?p # drop ?l (take start a)"
    unfolding new using l start by (simp add: min_def Suc_diff_le)
  show "sorted_wrt (\<lambda>x y. k x \<le> k y) (take (Suc start) (insert_pivot c a start))"
    unfolding pre using s1 s2 before after by (fastforce simp: sorted_wrt_append)
qed

lemma BinaryInsertionSort_sorted:
  fixes k :: "'a \<Rightarrow> int"
  assumes cmp: "\<And>x y. x \<in> S \<Longrightarrow> y \<in> S \<Longrightarrow> (Compare c x y < Fin 0) = (k x < k y)"
  shows "set a \<subseteq> S \<Longrightarrow> start \<le> length a \<Longrightarrow> sorted_wrt (\<lambda>x y. k x \<le> k y) (take start a) \<Longrightarrow>
         sorted_wrt (\<lambda>x y. k x \<le> k y) (BinaryInsertionSort c a start)
         \<and> set (BinaryInsertionSort c a start) = set a"
proof (induction "length a - start" arbitrary: a start)
  case 0
  then show ?case by (simp add: BinaryInsertionSort_def)
next
  case (Suc n)
  then have start: "start < length a" by simp
  note step = insert_pivot_sorted[OF cmp Suc.prems(1) start Suc.prems(3)]
  have unfold: "BinaryInsertionSort c a start = BinaryInsertionSort c (insert_pivot c a start) (Suc start)"
    using start by (simp add: BinaryInsertionSort_def upt_conv_Cons step(1))
  have "sorted_wrt (\<lambda>x y. k x \<le> k y) (BinaryInsertionSort c (insert_pivot c a start) (Suc start))
         \<and> set (BinaryInsertionSort c (insert_pivot c a start) (Suc start)) = set (insert_pivot c a start)"
    using Suc.hyps(2) start Suc.prems(1) step by (intro Suc.hyps(1)) auto
  then show ?case unfolding unfold using step(2) by simp
qed

lemma run_length_le: "run_length c d p xs \<le> length xs"
  by (induction xs arbitrary: p) auto

lemma run_ascending:
  fixes k :: "'a \<Rightarrow> int"
  assumes cmp: "\<And>x y. x \<in> S \<Longrightarrow> y \<in> S \<Longrightarrow> (Compare c x y < Fin 0) = (k x < k y)"
  shows "set (p # xs) \<subseteq> S \<Longrightarrow> sorted_wrt (\<lambda>x y. k x \<le> k y) (p # take (run_length c False p xs) xs)"
proof (induction xs arbitrary: p)
  case Nil
  then show ?case by simp
next
  case (Cons q xs)
  have "sorted_wrt (\<lambda>x y. k x \<le> k y) (q # take (run_length c False q xs) xs)"
    using Cons.prems by (intro Cons.IH) auto
  moreover have "(Compare c q p < Fin 0) = (k q < k p)"
    using Cons.prems by (intro cmp) auto
  ultimately show ?case by fastforce
qed

lemma run_descending:
  fixes k :: "'a \<Rightarrow> int"
  assumes cmp: "\<And>x y. x \<in> S \<Longrightarrow> y \<in> S \<Longrightarrow> (Compare c x y < Fin 0) = (k x < k y)"
  shows "set (p # xs) \<subseteq> S \<Longrightarrow> sorted_wrt (\<lambda>x y. k y < k x) (p # take (run_length c True p xs) xs)"
proof (induction xs arbitrary: p)
  case Nil
  then show ?case by simp
next
  case (Cons q xs)
  have "sorted_wrt (\<lambda>x y. k y < k x) (q # take (run_length c True q xs) xs)"
    using Cons.prems by (intro Cons.IH) auto
  moreover have "(Compare c q p < Fin 0) = (k q < k p)"
    using Cons.prems by (intro cmp) auto
  ultimately show ?case by fastforce
qed

lemma CountAndMakeRun_sorted:
  fixes k :: "'a \<Rightarrow> int"
  assumes cmp: "\<And>x y. x \<in> S \<Longrightarrow> y \<in> S \<Longrightarrow> (Compare c x y < Fin 0) = (k x < k y)"
    and S: "set xs \<subseteq> S"
  shows "set (fst (CountAndMakeRun c xs)) = set xs"
    and "snd (CountAndMakeRun c xs) \<le> length (fst (CountAndMakeRun c xs))"
    and "sorted_wrt (\<lambda>x y. k x \<le> k y) (take (snd (CountAndMakeRun c xs)) (fst (CountAndMakeRun c xs)))"
proof -
  consider "length xs < 2" | a b rest where "xs = a # b # rest"
    by (cases xs; cases "tl xs") auto
  then have "set (fst (CountAndMakeRun c xs)) = set xs
    \<and> snd (CountAndMakeRun c xs) \<le> length (fst (CountAndMakeRun c xs))
    \<and> sorted_wrt (\<lambda>x y. k x \<le> k y) (take (snd (CountAndMakeRun c xs)) (fst (CountAndMakeRun c xs)))"
  proof cases
    case 1
    then show ?thesis
      by (cases xs; cases "tl xs") (auto simp: CountAndMakeRun_def)
  next
    case 2
    let ?d = "Compare c b a < Fin 0"
    let ?n = "2 + run_length c ?d b rest"
    have n: "?n \<le> length xs" using run_length_le[of c ?d b rest] 2 by simp
    have tk: "take ?n xs = a # b # take (run_length c ?d b rest) rest" using 2 by simp
    have ab: "?d = (k b < k a)" using S 2 by (intro cmp) auto
    have bS: "set (b # rest) \<subseteq> S" using S 2 by auto
    show ?thesis
    proof (cases ?d)
      case True
      have r: "CountAndMakeRun c xs = (rev (take ?n xs) @ drop ?n xs, ?n)"
        using True 2 by (simp add: CountAndMakeRun_def Let_def)
      have "sorted_wrt (\<lambda>x y. k y < k x) (b # take (run_length c True b rest) rest)"
        using run_descending[of S c k b rest, OF cmp bS] by simp
      then have "sorted_wrt (\<lambda>x y. k y < k x) (take ?n xs)"
        unfolding tk using True ab by fastforce
      then have "sorted_wrt (\<lambda>x y. k y \<le> k x) (take ?n xs)"
        by (rule sorted_wrt_mono_rel[rotated]) simp
      then have "sorted_wrt (\<lambda>x y. k x \<le> k y) (rev (take ?n xs))"
        by (simp add: sorted_wrt_rev)
      moreover have "set (rev (take ?n xs) @ drop ?n xs) = set xs"
        by (metis append_take_drop_id set_append set_rev)
      ultimately show ?thesis
        unfolding r using n by (simp add: min_def)
    next
      case False
      have r: "CountAndMakeRun c xs = (xs, ?n)"
        using False 2 by (simp add: CountAndMakeRun_def Let_def)
      have "sorted_wrt (\<lambda>x y. k x \<le> k y) (b # take (run_length c False b rest) rest)"
        using run_ascending[of S c k b rest, OF cmp bS] by simp
      then have "sorted_wrt (\<lambda>x y. k x \<le> k y) (take ?n xs)"
        unfolding tk using False ab by fastforce
      then show ?thesis unfolding r using n by simp
    qed
  qed
  then show "set (fst (CountAndMakeRun c xs)) = set xs"
    and "snd (CountAndMakeRun c xs) \<le> length (fst (CountAndMakeRun c xs))"
    and "sorted_wrt (\<lambda>x y. k x \<le> k y) (take (snd (CountAndMakeRun c xs)) (fst (CountAndMakeRun c xs)))"
    by simp_all
qed

lemma Array_sort_sorted:
  fixes k :: "'a \<Rightarrow> int"
  assumes cmp: "\<And>x y. x \<in> S \<Longrightarrow> y \<in> S \<Longrightarrow> (Compare c x y < Fin 0) = (k x < k y)"
    and S: "set xs \<subseteq> S"
    and some: "Array_sort c xs = Some ys"
  shows "sorted_wrt (\<lambda>x y. k x \<le> k y) ys" and "set ys = set xs"
proof -
  have "sorted_wrt (\<lambda>x y. k x \<le> k y) ys \<and> set ys = set xs"
  proof (cases "length xs < 2")
    case True
    then have "ys = xs" using some by (simp add: Array_sort_def)
    then show ?thesis using True by (cases xs; cases "tl xs") auto
  next
    case False
    let ?r = "CountAndMakeRun c xs"
    have ys: "ys = BinaryInsertionSort c (fst ?r) (snd ?r)"
      using some False by (simp add: Array_sort_def split_beta split: if_splits)
    note run = CountAndMakeRun_sorted[OF cmp S]
    have "sorted_wrt (\<lambda>x y. k x \<le> k y) (BinaryInsertionSort c (fst ?r) (snd ?r))
         \<and> set (BinaryInsertionSort c (fst ?r) (snd ?r)) = set (fst ?r)"
      using run S by (intro BinaryInsertionSort_sorted[OF cmp]) auto
    then show ?thesis using ys run(1) by simp
  qed
  then show "sorted_wrt (\<lambda>x y. k x \<le> k y) ys" and "set ys = set xs" by simp_all
qed

subsection \<open>The invariant\<close>

lemma parseable_Time: "parseable r \<longleftrightarrow> (\<exists>t. timestamp r = Time t)"
  by (cases "timestamp r") (simp_all add: parseable_def)

lemma Compare_by_timestamp:
  assumes "parseable x" and "parseable y"
  shows "(Compare by_timestamp x y < Fin 0) =
         ((case timestamp x of Time t \<Rightarrow> t | InvalidDate \<Rightarrow> 0) < (case timestamp y of Time t \<Rightarrow> t | InvalidDate \<Rightarrow> 0))"
  using assms by (auto simp: parseable_Time Compare_def by_timestamp_def minus_number_def)

text \<open>
  The first half holds as long as every timestamp parses: the buffer that a call leaves
  holds only readings whose timestamps parse, and a call on such a buffer with a batch of
  such readings leaves it sorted.
\<close>

lemma update_parseable:
  assumes "updateHistoricalData w this data = Some (this', w')"
  shows "list_all parseable (historicalData this')"
proof -
  have "parseable r" if "Fin x \<le> getTime (timestamp r)" for x r
    using that by (cases "timestamp r") (simp_all add: parseable_def)
  then show ?thesis
    using assms
    by (auto simp: updateHistoricalData_def Let_def split_beta Date_now_def list_all_iff
        split: option.splits)
qed

lemma update_sorted:
  assumes old: "list_all parseable (historicalData this)"
    and new: "list_all parseable data"
    and some: "updateHistoricalData w this data = Some (this', w')"
  shows "sorted_by_timestamp (historicalData this')"
proof -
  let ?k = "\<lambda>r. case timestamp r of Time t \<Rightarrow> t | InvalidDate \<Rightarrow> (0::int)"
  obtain merged where m: "Array_sort by_timestamp (historicalData this @ data) = Some merged"
    and buf: "historicalData this' =
      filter (\<lambda>reading. Fin (of_int (thirty_days_before (clock w 0))) \<le> getTime (timestamp reading)) merged"
    using some
    by (auto simp: updateHistoricalData_def Let_def split_beta Date_now_def split: option.splits)
  have S: "set (historicalData this @ data) \<subseteq> Collect parseable"
    using old new by (auto simp: list_all_iff)
  have cmp: "(Compare by_timestamp x y < Fin 0) = (?k x < ?k y)"
    if "x \<in> Collect parseable" "y \<in> Collect parseable" for x y
    using that by (simp add: Compare_by_timestamp)
  have srt: "sorted_wrt (\<lambda>x y. ?k x \<le> ?k y) merged"
    and set: "set merged = set (historicalData this @ data)"
    using Array_sort_sorted[of "Collect parseable" by_timestamp ?k, OF cmp S m] by simp_all
  have "sorted_wrt (\<lambda>a b. getTime (timestamp a) \<le> getTime (timestamp b)) merged"
  proof (rule sorted_wrt_mono_rel[OF _ srt])
    fix x y assume xy: "x \<in> set merged" "y \<in> set merged" and le: "?k x \<le> ?k y"
    have "parseable x" "parseable y"
      using xy S set by auto
    then obtain s t where "timestamp x = Time s" "timestamp y = Time t"
      by (auto simp: parseable_Time)
    then show "getTime (timestamp x) \<le> getTime (timestamp y)"
      using le by simp
  qed
  then show ?thesis
    unfolding buf sorted_by_timestamp_def by (rule sorted_wrt_filter)
qed

text \<open>
  The second half of the invariant holds whatever the readings are: the filter keeps a
  reading only if its timestamp parses and is at or after the time of the call minus 30
  days.
\<close>

lemma update_within_window:
  assumes "updateHistoricalData w this data = Some (this', w')"
  shows "within_window (clock w 0) (historicalData this')"
  using assms
  by (auto simp: updateHistoricalData_def Let_def split_beta Date_now_def within_window_def
      thirty_days_before_def list_all_iff split: option.splits)

text \<open>Two readings that parse, given latest first, are put in order.\<close>

lemma update_wellformed_batch:
  "map_option (historicalData \<circ> fst) (updateHistoricalData world_day40 DemandAnalyzer_new wellformed_batch) =
     Some [\<lparr>timestamp = Time 2900000000, value = Fin 3\<rparr>, \<lparr>timestamp = Time 3000000000, value = Fin 2\<rparr>]"
  by (simp add: updateHistoricalData_def Array_sort_def CountAndMakeRun_def BinaryInsertionSort_def
      Compare_def by_timestamp_def minus_number_def Let_def Date_now_def thirty_days_before_def
      DemandAnalyzer_new_def wellformed_batch_def world_day40_def)

text \<open>
  C5 asks the retained buffer to be sorted ascending by timestamp and within the 30-day
  window after any sequence of \<open>updateHistoricalData\<close> calls.  The function sorts the buffer
  on every call, by the difference of the times of two readings.  A timestamp is a string
  that nothing validates; for one that does not parse the time is \<open>NaN\<close>, so is every
  difference with it, and the sort reads each as 0.  One call on a new analyzer, with a
  reading of day 34, one whose timestamp does not parse and a reading of day 33, in this
  order, at day 40: the sort finds no pair out of order and leaves the array as it is, the
  filter drops the reading that does not parse, and the buffer keeps the reading of day 34
  before the reading of day 33.  It is within the window, and it is not sorted.
\<close>

theorem C5_malformed_timestamp_unsorted_buffer:
  "map_option (historicalData \<circ> fst) (updateHistoricalData world_day40 DemandAnalyzer_new malformed_batch) =
     Some [\<lparr>timestamp = Time 3000000000, value = Fin 2\<rparr>, \<lparr>timestamp = Time 2900000000, value = Fin 3\<rparr>]
   \<and> \<not> sorted_by_timestamp
         [\<lparr>timestamp = Time 3000000000, value = Fin 2\<rparr>, \<lparr>timestamp = Time 2900000000, value = Fin 3\<rparr>]
   \<and> within_window 3456000000
         [\<lparr>timestamp = Time 3000000000, value = Fin 2\<rparr>, \<lparr>timestamp = Time 2900000000, value = Fin 3\<rparr>]"
  by (simp add: updateHistoricalData_def Array_sort_def CountAndMakeRun_def BinaryInsertionSort_def
      Compare_def by_timestamp_def minus_number_def Let_def Date_now_def thirty_days_before_def
      DemandAnalyzer_new_def malformed_batch_def world_day40_def sorted_by_timestamp_def
      within_window_def)

section \<open>C4: determinism\<close>

subsection \<open>The cost analysis, up to the environment\<close>

lemma breakdown_numbers:
  "blank_breakdown (fst (calculateBreakdown w data)) = blank_breakdown (fst (calculateBreakdown w' data))"
  "peak_cost (fst (calculateBreakdown w data)) = peak_cost (fst (calculateBreakdown w' data))"
  "off_peak_cost (fst (calculateBreakdown w data)) = off_peak_cost (fst (calculateBreakdown w' data))"
  "demand_charges (fst (calculateBreakdown w data)) = demand_charges (fst (calculateBreakdown w' data))"
  by (simp_all add: calculateBreakdown_def blank_breakdown_def Let_def split_beta randomUUID_def Date_now_def)

lemma metrics_world:
  "calculateMetrics (fst (calculateBreakdown w data)) a b = calculateMetrics (fst (calculateBreakdown w' data)) a b"
  by (simp add: calculateMetrics_def breakdown_numbers(2-4)[of w data w'])

lemma comparison_world:
  "fst (calculateComparison w cur prev) = fst (calculateComparison w' cur prev)"
  unfolding calculateComparison_def Let_def split_beta fst_conv
  by (simp add: breakdown_numbers(2-3)[of w cur w']
      breakdown_numbers(2-3)[of "snd (calculateBreakdown w cur)" prev "snd (calculateBreakdown w' cur)"])

lemma forecast_world:
  "map_sum id (map blank_forecast \<circ> fst) (generateForecast w data) =
   map_sum id (map blank_forecast \<circ> fst) (generateForecast w' data)"
proof -
  have "map blank_forecast (fst (mapW (forecast_entry h) xs w)) =
        map blank_forecast (fst (mapW (forecast_entry h) xs w'))" for h xs
    by (simp add: fst_mapW_map[where g = "\<lambda>x. blank_forecast (fst (forecast_entry h x world0))"]
        forecast_entry_def blank_forecast_def Let_def split_beta)
  then show ?thesis
    by (simp add: generateForecast_def Let_def split_beta split: sum.splits)
qed

lemma opportunities_world:
  "map blank_opportunity (fst (generateSavingOpportunities w (fst (calculateBreakdown v data)) tou)) =
   map blank_opportunity (fst (generateSavingOpportunities w' (fst (calculateBreakdown v' data)) tou))"
  by (simp add: generateSavingOpportunities_def Let_def push_if_kinds blank_opportunity_def
      peakReductionOpportunity_def rateOptimizationOpportunity_def demandResponseOpportunity_def
      breakdown_numbers(2-4)[of v data v'])

lemma analyzeCosts_cases:
  "analyzeCosts w cur prev =
     (case generateForecast (snd (calculateComparison (snd (calculateBreakdown w cur)) cur
                                   (if length prev \<noteq> 0 then prev else cur))) cur of
        Inl e \<Rightarrow> Inl e
      | Inr fw \<Rightarrow>
          (case generateMLInsights cur of
             Inl e \<Rightarrow> Inl e
           | Inr ml \<Rightarrow>
               Inr (\<lparr>breakdown = fst (calculateBreakdown w cur),
                     metrics = calculateMetrics (fst (calculateBreakdown w cur)) (reduce_add value cur)
                                 (reduce_add value (filter (\<lambda>reading. isPeakHour (getHours (timestamp reading))) cur)),
                     comparison = fst (calculateComparison (snd (calculateBreakdown w cur)) cur
                                   (if length prev \<noteq> 0 then prev else cur)),
                     forecast = fst fw,
                     anomalies = detectAnomalies cur,
                     timeOfUse = generateTimeOfUseCosts cur,
                     savingOpportunities =
                       fst (generateSavingOpportunities (snd fw) (fst (calculateBreakdown w cur))
                              (generateTimeOfUseCosts cur)),
                     mlInsights = ml,
                     isLoading = False,
                     isError = False,
                     error = None\<rparr>,
                    snd (generateSavingOpportunities (snd fw) (fst (calculateBreakdown w cur))
                              (generateTimeOfUseCosts cur)))))"
  by (simp add: analyzeCosts_def Let_def split_beta split: sum.splits)

lemma costs_world:
  "map_sum id (blank_cost_analysis \<circ> fst) (analyzeCosts w cur prev) =
   map_sum id (blank_cost_analysis \<circ> fst) (analyzeCosts w' cur prev)"
proof -
  let ?p = "if length prev \<noteq> 0 then prev else cur"
  let ?w2 = "\<lambda>w. snd (calculateComparison (snd (calculateBreakdown w cur)) cur ?p)"
  have F: "map_sum id (map blank_forecast \<circ> fst) (generateForecast (?w2 w) cur) =
           map_sum id (map blank_forecast \<circ> fst) (generateForecast (?w2 w') cur)"
    by (rule forecast_world)
  show ?thesis
  proof (cases "generateForecast (?w2 w) cur")
    case (Inl e)
    with F have "generateForecast (?w2 w') cur = Inl e"
      by (cases "generateForecast (?w2 w') cur") simp_all
    with Inl show ?thesis
      by (simp add: analyzeCosts_cases)
  next
    case (Inr fw)
    with F obtain fw' where fw': "generateForecast (?w2 w') cur = Inr fw'"
      and eq: "map blank_forecast (fst fw) = map blank_forecast (fst fw')"
      by (cases "generateForecast (?w2 w') cur") simp_all
    show ?thesis
    proof (cases "generateMLInsights cur")
      case (Inl e)
      with Inr fw' show ?thesis by (simp add: analyzeCosts_cases)
    next
      case ml: (Inr ml)
      show ?thesis
        using Inr fw' ml eq
          breakdown_numbers(1)[of w cur w'] metrics_world[of w cur _ _ w']
          comparison_world[of "snd (calculateBreakdown w cur)" cur ?p "snd (calculateBreakdown w' cur)"]
          opportunities_world[of "snd fw" w cur _ "snd fw'" w']
        by (simp add: analyzeCosts_cases blank_cost_analysis_def)
    qed
  qed
qed

subsection \<open>The sustainability analysis, up to the environment\<close>

lemma fst_mapW_world:
  assumes "\<And>x w w'. h (fst (f x w)) = h (fst (f x w'))"
  shows "map h (fst (mapW f xs w)) = map h (fst (mapW f xs w'))"
proof -
  have "map h (fst (mapW f xs v)) = map (\<lambda>x. h (fst (f x world0))) xs" for v
    by (rule fst_mapW_map) (rule assms)
  then show ?thesis by simp
qed


lemma carbon_world:
  "blank_carbon (fst (calculateCarbonFootprint w data)) = blank_carbon (fst (calculateCarbonFootprint w' data))"
proof -
  have "map blank_emission_forecast (fst (mapW (emission_forecast e) xs w)) =
        map blank_emission_forecast (fst (mapW (emission_forecast e) xs w'))" for e xs
    by (rule fst_mapW_world)
       (simp add: emission_forecast_def blank_emission_forecast_def Let_def split_beta)
  then show ?thesis
    by (simp add: calculateCarbonFootprint_def blank_carbon_def Let_def split_beta)
qed

lemma carbon_emissionsPerKwh_world:
  "emissionsPerKwh (fst (calculateCarbonFootprint w data)) = emissionsPerKwh (fst (calculateCarbonFootprint w' data))"
  by (simp add: calculateCarbonFootprint_def Let_def split_beta)

lemma efficiency_world:
  "blank_efficiency (fst (calculateEfficiencyMetrics w data)) = blank_efficiency (fst (calculateEfficiencyMetrics w' data))"
  "peakEfficiency (fst (calculateEfficiencyMetrics w data)) = peakEfficiency (fst (calculateEfficiencyMetrics w' data))"
  "offPeakEfficiency (fst (calculateEfficiencyMetrics w data)) = offPeakEfficiency (fst (calculateEfficiencyMetrics w' data))"
  "wasteEnergy (fst (calculateEfficiencyMetrics w data)) = wasteEnergy (fst (calculateEfficiencyMetrics w' data))"
  by (simp_all add: calculateEfficiencyMetrics_def blank_efficiency_def blank_equipment_def Let_def split_beta)

lemma recommendations_world:
  "map blank_recommendation (fst (generateRecommendations w scores)) =
   map blank_recommendation (fst (generateRecommendations w' scores))"
  by (simp add: generateRecommendations_def Let_def push_if_kinds blank_recommendation_def
      carbonRecommendation_def renewableRecommendation_def)

lemma score_world:
  assumes "emissionsPerKwh c = emissionsPerKwh c'"
    and "peakEfficiency e = peakEfficiency e'"
    and "offPeakEfficiency e = offPeakEfficiency e'"
    and "wasteEnergy e = wasteEnergy e'"
  shows "blank_score (fst (calculateSustainabilityScore w c r e)) =
         blank_score (fst (calculateSustainabilityScore w' c' r e'))"
proof -
  have h: "map blank_progress (fst (mapW (historical_progress ov) xs v)) =
        map blank_progress (fst (mapW (historical_progress ov) xs v'))" for ov xs v v'
    by (rule fst_mapW_world)
       (simp add: historical_progress_def blank_progress_def Let_def split_beta)
  have f: "map blank_score_forecast (fst (mapW (score_forecast ov) xs v)) =
        map blank_score_forecast (fst (mapW (score_forecast ov) xs v'))" for ov xs v v'
    by (rule fst_mapW_world)
       (simp add: score_forecast_def blank_score_forecast_def Let_def split_beta)
  show ?thesis
    unfolding calculateSustainabilityScore_def Let_def split_beta blank_score_def assms
    by (simp add: h[of _ _ w w'] f[of _ _ "snd (mapW (historical_progress _) [0..<12] w)" "snd (mapW (historical_progress _) [0..<12] w')"]
        recommendations_world[of "snd (mapW (score_forecast _) [0..<12] (snd (mapW (historical_progress _) [0..<12] w)))" _
                                 "snd (mapW (score_forecast _) [0..<12] (snd (mapW (historical_progress _) [0..<12] w')))"])
qed

lemma insights_world:
  "blank_insights (fst (calculateMLInsights w data)) = blank_insights (fst (calculateMLInsights w' data))"
proof -
  have "map blank_daily (fst (mapW daily_efficiency xs w)) = map blank_daily (fst (mapW daily_efficiency xs w'))" for xs
    by (rule fst_mapW_world) (simp add: daily_efficiency_def blank_daily_def Let_def split_beta)
  then show ?thesis
    by (simp add: calculateMLInsights_def blank_insights_def Let_def split_beta)
qed

lemma sustainability_world:
  "blank_sustainability (fst (analyzeSustainability w data)) =
   blank_sustainability (fst (analyzeSustainability w' data))"
  unfolding analyzeSustainability_def Let_def split_beta blank_sustainability_def
  using carbon_world[of w data w']
    efficiency_world(1)[of "snd (calculateCarbonFootprint w data)" data "snd (calculateCarbonFootprint w' data)"]
    score_world[OF carbon_emissionsPerKwh_world[of w data w']
        efficiency_world(2-4)[of "snd (calculateCarbonFootprint w data)" data "snd (calculateCarbonFootprint w' data)"],
        of "snd (calculateEfficiencyMetrics (snd (calculateCarbonFootprint w data)) data)" "calculateRenewableMetrics data"
           "snd (calculateEfficiencyMetrics (snd (calculateCarbonFootprint w' data)) data)"]
    insights_world[of "snd (calculateSustainabilityScore (snd (calculateEfficiencyMetrics (snd (calculateCarbonFootprint w data)) data))
        (fst (calculateCarbonFootprint w data)) (calculateRenewableMetrics data)
        (fst (calculateEfficiencyMetrics (snd (calculateCarbonFootprint w data)) data)))" data
       "snd (calculateSustainabilityScore (snd (calculateEfficiencyMetrics (snd (calculateCarbonFootprint w' data)) data))
        (fst (calculateCarbonFootprint w' data)) (calculateRenewableMetrics data)
        (fst (calculateEfficiencyMetrics (snd (calculateCarbonFootprint w' data)) data)))"]
  by simp

subsection \<open>What a call draws from the environment\<close>

lemma advance_0 [simp]: "advance 0 0 0 w = w"
  by (simp add: advance_def)

lemma advance_advance [simp]: "advance u c r (advance u' c' r' w) = advance (u + u') (c + c') (r + r') w"
  by (simp add: advance_def add.assoc)

lemma advance_fields [simp]:
  "uuids (advance u c r w) n = uuids w (n + u)"
  "clock (advance u c r w) n = clock w (n + c)"
  "randoms (advance u c r w) n = randoms w (n + r)"
  by (simp_all add: advance_def)

lemma draws:
  "snd (randomUUID w) = advance 1 0 0 w"
  "snd (Date_now w) = advance 0 1 0 w"
  "snd (Math_random w) = advance 0 0 1 w"
  by (simp_all add: randomUUID_def Date_now_def Math_random_def advance_def)

lemma snd_mapW_advance:
  assumes "\<And>x w. snd (f x w) = advance u c r w"
  shows "snd (mapW f xs w) = advance (length xs * u) (length xs * c) (length xs * r) w"
  using assms by (induction xs arbitrary: w) (simp_all add: split_beta add.commute)

lemma carbon_draws: "snd (calculateCarbonFootprint w data) = advance 0 24 24 w"
proof -
  have "snd (emission_forecast e i v) = advance 0 1 1 v" for e i v
    by (simp add: emission_forecast_def Let_def split_beta draws)
  then have "snd (mapW (emission_forecast e) [0..<24] w) = advance 0 24 24 w" for e
    by (simp add: snd_mapW_advance)
  then show ?thesis
    by (simp add: calculateCarbonFootprint_def Let_def split_beta)
qed

lemma efficiency_draws: "snd (calculateEfficiencyMetrics w data) = advance 0 3 0 w"
  by (simp add: calculateEfficiencyMetrics_def Let_def split_beta draws numeral_3_eq_3)

lemma first_emission_timestamp:
  "map EmissionForecast.timestamp' (CarbonFootprint.forecast (carbonFootprint (fst (analyzeSustainability w data)))) ! 0 = Time (clock w 0)"
proof -
  have "EmissionForecast.timestamp' (fst (emission_forecast e i v)) = Time (clock v 0 + int i * 3600000)" for e i v
    by (simp add: emission_forecast_def Let_def split_beta Date_now_def)
  then have "map EmissionForecast.timestamp' (fst (mapW (emission_forecast e) [0..<24] w)) ! 0 = Time (clock w 0)" for e
    by (simp add: upt_rec[of 0 24] split_beta)
  then show ?thesis
    by (simp add: analyzeSustainability_def calculateCarbonFootprint_def Let_def split_beta)
qed

lemma push_if_clock: "clock (snd (push_if c mk st)) = clock (snd st)"
  by (simp add: push_if_def split_beta randomUUID_def)

lemma score_clock: "clock (snd (calculateSustainabilityScore w c r e)) n = clock w (n + 24)"
proof -
  have h: "snd (historical_progress ov i v) = advance 0 1 1 v" for ov i v
    by (simp add: historical_progress_def Let_def split_beta draws)
  have f: "snd (score_forecast ov i v) = advance 0 1 1 v" for ov i v
    by (simp add: score_forecast_def Let_def split_beta draws)
  show ?thesis
    by (simp add: calculateSustainabilityScore_def Let_def split_beta generateRecommendations_def
        push_if_clock snd_mapW_advance[of "historical_progress _", OF h]
        snd_mapW_advance[of "score_forecast _", OF f])
qed

lemma insights_clock: "clock (snd (calculateMLInsights w data)) = clock w"
proof -
  have "snd (daily_efficiency i v) = advance 0 0 1 v" for i v
    by (simp add: daily_efficiency_def Let_def split_beta draws)
  then have "snd (mapW daily_efficiency [0..<24] w) = advance 0 0 24 w"
    by (simp add: snd_mapW_advance)
  then show ?thesis
    by (simp add: calculateMLInsights_def Let_def split_beta advance_def)
qed

lemma sustainability_clock: "clock (snd (analyzeSustainability w data)) n = clock w (n + 51)"
  by (simp add: analyzeSustainability_def Let_def split_beta insights_clock score_clock
      efficiency_draws carbon_draws add.commute)

lemma sustainability_twice_differs:
  "(case analyzeSustainability_twice world_fresh [] of
      (first, second) \<Rightarrow>
        (map EmissionForecast.timestamp' (CarbonFootprint.forecast (carbonFootprint first)) ! 0,
         map EmissionForecast.timestamp' (CarbonFootprint.forecast (carbonFootprint second)) ! 0))
   = (Time 0, Time 51)"
  by (simp add: analyzeSustainability_twice_def split_beta first_emission_timestamp sustainability_clock
      world_fresh_def)

lemma breakdown_draws: "snd (calculateBreakdown w data) = advance 1 1 0 w"
  by (simp add: calculateBreakdown_def Let_def split_beta draws)

lemma comparison_draws: "snd (calculateComparison w cur prev) = advance 2 2 0 w"
  by (simp add: calculateComparison_def Let_def split_beta breakdown_draws numeral_2_eq_2)

lemma forecast_draws: "generateForecast w data = Inr fw \<Longrightarrow> snd fw = advance 0 24 0 w"
proof -
  have "snd (forecast_entry h x v) = advance 0 1 0 v" for h x v
    by (simp add: forecast_entry_def Let_def split_beta draws)
  then have "snd (mapW (forecast_entry h) (indexed (Array_fill 24 r)) w) = advance 0 24 0 w" for h r
    by (simp add: snd_mapW_advance indexed_def Array_fill_def)
  then show "generateForecast w data = Inr fw \<Longrightarrow> snd fw = advance 0 24 0 w"
    by (auto simp: generateForecast_def Let_def split_beta alloc_def split: sum.splits)
qed

lemma opportunities_clock: "clock (snd (generateSavingOpportunities w b tou)) = clock w"
  by (simp add: generateSavingOpportunities_def Let_def push_if_clock)

lemma analyzeCosts_clock:
  assumes "analyzeCosts w cur prev = Inr (r, w1)"
  shows "created_at (breakdown r) = Time (clock w 0)" and "clock w1 n = clock w (n + 27)"
proof -
  let ?p = "if length prev \<noteq> 0 then prev else cur"
  let ?w2 = "snd (calculateComparison (snd (calculateBreakdown w cur)) cur ?p)"
  obtain fw where fw: "generateForecast ?w2 cur = Inr fw"
    using assms by (auto simp: analyzeCosts_def Let_def split_beta split: sum.splits)
  obtain ml where ml: "generateMLInsights cur = Inr ml"
    using assms fw by (auto simp: analyzeCosts_def Let_def split_beta split: sum.splits)
  have r: "breakdown r = fst (calculateBreakdown w cur)"
    and w1: "w1 = snd (generateSavingOpportunities (snd fw) (fst (calculateBreakdown w cur)) (generateTimeOfUseCosts cur))"
    using assms fw ml by (auto simp: analyzeCosts_def Let_def split_beta)
  show "created_at (breakdown r) = Time (clock w 0)"
    by (simp add: r calculateBreakdown_def Let_def split_beta Date_now_def randomUUID_def)
  show "clock w1 n = clock w (n + 27)"
    by (simp add: w1 opportunities_clock forecast_draws[OF fw] comparison_draws breakdown_draws add.commute)
qed

lemma analyzeCosts_Nil_Inr: "\<exists>r w1. analyzeCosts w [] [] = Inr (r, w1)"
proof -
  obtain f where f: "generateForecast (snd (calculateComparison (snd (calculateBreakdown w [])) [] [])) [] = Inr f"
    using generateForecast_Nil_Inr by blast
  obtain m where m: "generateMLInsights [] = Inr m"
    using generateMLInsights_Nil_Inr by blast
  show ?thesis
    using f m by (simp add: analyzeCosts_def Let_def split_beta)
qed

lemma costs_twice_differs:
  "map_sum id (\<lambda>(first, second). (created_at (breakdown first), created_at (breakdown second)))
     (analyzeCosts_twice world_fresh [] []) = Inr (Time 0, Time 27)"
proof -
  obtain r1 w1 where c1: "analyzeCosts world_fresh [] [] = Inr (r1, w1)"
    using analyzeCosts_Nil_Inr by blast
  obtain r2 w2 where c2: "analyzeCosts w1 [] [] = Inr (r2, w2)"
    using analyzeCosts_Nil_Inr by blast
  have t1: "created_at (breakdown r1) = Time 0"
    using analyzeCosts_clock(1)[OF c1] by (simp add: world_fresh_def)
  have "clock w1 0 = 27"
    using analyzeCosts_clock(2)[OF c1, of 0] by (simp add: world_fresh_def)
  then have t2: "created_at (breakdown r2) = Time 27"
    using analyzeCosts_clock(1)[OF c2] by simp
  show ?thesis
    by (simp add: analyzeCosts_twice_def c1 c2 t1 t2)
qed

subsection \<open>The claim\<close>

text \<open>
  C4, as stated, has two calls with the same input return the same output in every field.
  Every call draws fresh identifiers, clock readings and random numbers.  Of two calls in a
  row on the empty reading array, the second running in the environment the first one
  leaves, \<open>analyzeCosts\<close> stamps its breakdowns with the clock readings 0 and 27, and
  \<open>analyzeSustainability\<close> starts its emission forecasts at the clock readings 0 and 51.
\<close>

theorem C4_counterexample:
  "map_sum id (\<lambda>(first, second). (created_at (breakdown first), created_at (breakdown second)))
     (analyzeCosts_twice world_fresh [] []) = Inr (Time 0, Time 27)
   \<and> (case analyzeSustainability_twice world_fresh [] of
        (first, second) \<Rightarrow>
          (map EmissionForecast.timestamp' (CarbonFootprint.forecast (carbonFootprint first)) ! 0,
           map EmissionForecast.timestamp' (CarbonFootprint.forecast (carbonFootprint second)) ! 0))
       = (Time 0, Time 51)"
  using costs_twice_differs sustainability_twice_differs by blast

text \<open>
  C4, amended: \<open>analyzeCosts\<close> and \<open>analyzeSustainability\<close> are functions of their input
  and of the environment they draw from.  For every input, two calls, in whatever
  environments, return outputs that are identical in every field except those drawn from
  the environment: for \<open>analyzeCosts\<close> the breakdown's \<open>id\<close> and \<open>created_at\<close>, the \<open>date\<close> of
  each forecast entry and the \<open>id\<close> of each saving opportunity (and the two calls throw
  the same error, if one throws); for \<open>analyzeSustainability\<close> the \<open>timestamp\<close> and
  \<open>predictedEmissions\<close> of the emission forecast, the \<open>nextService\<close> dates of the equipment,
  the \<open>id\<close> of each recommendation, the \<open>timestamp\<close> and \<open>score\<close> of the historical
  progress, the \<open>timestamp\<close> and \<open>predictedScore\<close> of the score forecast, and the
  \<open>efficiency\<close> of the daily patterns.
\<close>

theorem C4_deterministic_up_to_environment:
  "map_sum id (blank_cost_analysis \<circ> fst) (analyzeCosts w cur prev) =
     map_sum id (blank_cost_analysis \<circ> fst) (analyzeCosts w' cur prev)
   \<and> blank_sustainability (fst (analyzeSustainability w data)) =
       blank_sustainability (fst (analyzeSustainability w' data))"
  using costs_world sustainability_world by blast

end
